theory Spec2Isabelle
  imports Complex_Main "HOL-Library.Char_ord" "HOL-Library.List_Lexorder" "HOL-Library.Multiset"
begin

text \<open>
  The tracing engine of X-Ray: the sanitizer, steps, the tracer with its wrapper
  (\<^verbatim>\<open>xray_sdk/xray.py\<close>), and the list, fetch and submit operations of the
  dashboard on the trace files (\<^verbatim>\<open>dashboard/server.py\<close>). Python functions are
  modelled by functions on explicit state; a call that can raise returns a sum, the
  exception on the left. What the code reads from its environment (clock, uuid, whether
  a write succeeds) is an argument.
\<close>

section \<open>Values\<close>

text \<open>
  A Python exception, as far as the tracer observes it: whether it is an instance of
  \<^verbatim>\<open>Exception\<close> (and not only of \<^verbatim>\<open>BaseException\<close>, as
  \<^verbatim>\<open>KeyboardInterrupt\<close> is), the name of its class, and what \<^verbatim>\<open>str(e)\<close>
  does: \<open>Exn\<close> is an exception with a message, \<open>Unprintable\<close> one whose
  \<^verbatim>\<open>__str__\<close> raises the exception given. The exceptions of the interpreter and of
  the library (\<^verbatim>\<open>AttributeError\<close>, \<^verbatim>\<open>KeyError\<close>, those of \<^verbatim>\<open>json\<close> and
  \<^verbatim>\<open>open\<close>) are of the first kind.
\<close>

datatype exn =
    Exn (is_Exception: bool) (exn_class: string) (exn_msg: string)
  | Unprintable (is_Exception: bool) (exn_class: string) (str_raises: exn)

text \<open>\<^verbatim>\<open>str(e)\<close>\<close>

fun str_exn :: "exn \<Rightarrow> exn + string" where
  "str_exn (Exn _ _ msg) = Inr msg"
| "str_exn (Unprintable _ _ e) = Inl e"

text \<open>
  What \<^verbatim>\<open>json.dump\<close> can write. Floats are modelled by the real number they
  denote, a string by the list of its characters. An object is an association list in
  insertion order, as a Python dict is.
\<close>

datatype json =
    JNull
  | JBool bool
  | JInt int
  | JFloat real
  | JStr string
  | JArr "json list"
  | JObj "(string \<times> json) list"

text \<open>
  The Python values a traced function can receive or return. An opaque object is
  represented by what \<^verbatim>\<open>xray.py\<close> observes of it: the name of its class and
  the outcome of \<^verbatim>\<open>str(value)\<close>, which returns a string or raises. A dict key is
  only ever passed to \<^verbatim>\<open>str(k)\<close>, so a key is represented by that outcome.
\<close>

datatype pyval =
    PNone
  | PStr string
  | PInt int
  | PFloat real
  | PBool bool
  | PList "pyval list"
  | PTuple "pyval list"
  | PDict "((exn + string) \<times> pyval) list"
  | PObj string "exn + string"

text \<open>\<^verbatim>\<open>type(value).__name__\<close>\<close>

fun type_name :: "pyval \<Rightarrow> string" where
  "type_name PNone = ''NoneType''"
| "type_name (PStr _) = ''str''"
| "type_name (PInt _) = ''int''"
| "type_name (PFloat _) = ''float''"
| "type_name (PBool _) = ''bool''"
| "type_name (PList _) = ''list''"
| "type_name (PTuple _) = ''tuple''"
| "type_name (PDict _) = ''dict''"
| "type_name (PObj c _) = c"

text \<open>\<^verbatim>\<open>d[k] = v\<close> on a dict in insertion order: an existing key keeps its place.\<close>

fun dict_set :: "'k \<Rightarrow> 'v \<Rightarrow> ('k \<times> 'v) list \<Rightarrow> ('k \<times> 'v) list" where
  "dict_set k v [] = [(k, v)]"
| "dict_set k v (p # ps) = (if fst p = k then (k, v) # ps else p # dict_set k v ps)"

text \<open>\<^verbatim>\<open>str(n)\<close> of an integer.\<close>

fun digits :: "nat \<Rightarrow> string" where
  "digits n = (if n < 10 then [''0123456789'' ! n] else digits (n div 10) @ [''0123456789'' ! (n mod 10)])"

definition str_int :: "int \<Rightarrow> string" where
  "str_int i = (if i < 0 then ''-'' @ digits (nat (- i)) else digits (nat i))"

section \<open>The sanitizer: \<^verbatim>\<open>XRay._make_json_safe\<close>\<close>

text \<open>
  \<^verbatim>\<open>
  def _make_json_safe(self, value):
      if value is None:
          return None
      elif isinstance(value, (str, int, float, bool)):
          return value
      elif isinstance(value, (list, tuple)):
          return [self._make_json_safe(item) for item in value]
      elif isinstance(value, dict):
          return {str(k): self._make_json_safe(v) for k, v in value.items()}
      else:
          try:
              return str(value)[:150]
          except:
              return f"Object of type {type(value).__name__}"
  \<close>
  The result is \<open>Inl e\<close> when the call raises \<open>e\<close>. The comprehensions run left to
  right and stop at the first exception; in the dict comprehension \<^verbatim>\<open>str(k)\<close> is
  evaluated before the value, outside any \<^verbatim>\<open>try\<close>.
\<close>

fun make_json_safe :: "pyval \<Rightarrow> exn + json"
  and make_json_safe_list :: "pyval list \<Rightarrow> exn + json list"
  and make_json_safe_items :: "((exn + string) \<times> pyval) list \<Rightarrow> (string \<times> json) list \<Rightarrow> exn + (string \<times> json) list"
where
  "make_json_safe PNone = Inr JNull"
| "make_json_safe (PStr s) = Inr (JStr s)"
| "make_json_safe (PInt i) = Inr (JInt i)"
| "make_json_safe (PFloat r) = Inr (JFloat r)"
| "make_json_safe (PBool b) = Inr (JBool b)"
| "make_json_safe (PList xs) = (case make_json_safe_list xs of Inl e \<Rightarrow> Inl e | Inr js \<Rightarrow> Inr (JArr js))"
| "make_json_safe (PTuple xs) = (case make_json_safe_list xs of Inl e \<Rightarrow> Inl e | Inr js \<Rightarrow> Inr (JArr js))"
| "make_json_safe (PDict kvs) = (case make_json_safe_items kvs [] of Inl e \<Rightarrow> Inl e | Inr d \<Rightarrow> Inr (JObj d))"
| "make_json_safe (PObj c r) = (case r of Inr s \<Rightarrow> Inr (JStr (take 150 s)) | Inl _ \<Rightarrow> Inr (JStr (''Object of type '' @ c)))"
| "make_json_safe_list [] = Inr []"
| "make_json_safe_list (x # xs) =
     (case make_json_safe x of
        Inl e \<Rightarrow> Inl e
      | Inr j \<Rightarrow> (case make_json_safe_list xs of Inl e \<Rightarrow> Inl e | Inr js \<Rightarrow> Inr (j # js)))"
| "make_json_safe_items [] acc = Inr acc"
| "make_json_safe_items ((k, v) # kvs) acc =
     (case k of
        Inl e \<Rightarrow> Inl e
      | Inr s \<Rightarrow> (case make_json_safe v of
                   Inl e \<Rightarrow> Inl e
                 | Inr j \<Rightarrow> make_json_safe_items kvs (dict_set s j acc)))"


text \<open>
  \<^verbatim>\<open>round(x, 2)\<close> on a float: the nearest multiple of 1/100, a tie going to the even
  neighbour. Rounding errors of float arithmetic itself are not modelled.
\<close>

definition round_half_even :: "real \<Rightarrow> int" where
  "round_half_even x =
     (let f = \<lfloor>x\<rfloor>; d = x - of_int f
      in if d < 1 / 2 then f else if 1 / 2 < d then f + 1 else if even f then f else f + 1)"

definition py_round2 :: "real \<Rightarrow> real" where
  "py_round2 x = of_int (round_half_even (x * 100)) / 100"

text \<open>\<^verbatim>\<open>int(x)\<close> on a float truncates towards zero.\<close>

definition int_of_float :: "real \<Rightarrow> int" where
  "int_of_float x = (if 0 \<le> x then \<lfloor>x\<rfloor> else \<lceil>x\<rceil>)"

section \<open>Steps: \<^verbatim>\<open>class XRayStep\<close>\<close>

record XRayStep =
  step_id :: string
  step_name :: string
  step_type :: string
  step_input :: "(string \<times> json) list"
  step_output :: "(string \<times> json) list"
  step_reasoning :: string
  step_timestamp :: string
  step_duration_ms :: real
  step_success :: bool
  step_error :: "string option"
  step_start_time :: real

text \<open>
  The constructor reads \<^verbatim>\<open>uuid.uuid4()\<close>, \<^verbatim>\<open>datetime.now()\<close> and
  \<^verbatim>\<open>time.time()\<close>, and \<^verbatim>\<open>end\<close> reads \<^verbatim>\<open>time.time()\<close> again: the
  readings of one instrumented call.
\<close>

record step_env =
  env_uuid :: string
  env_now :: string
  env_clock_start :: real
  env_clock_end :: real

definition XRayStep_init :: "string \<Rightarrow> string \<Rightarrow> step_env \<Rightarrow> XRayStep" where
  "XRayStep_init name stype env =
     \<lparr> step_id = take 8 (env_uuid env),
       step_name = name,
       step_type = stype,
       step_input = [],
       step_output = [],
       step_reasoning = [],
       step_timestamp = env_now env,
       step_duration_ms = 0,
       step_success = True,
       step_error = None,
       step_start_time = env_clock_start env \<rparr>"

definition XRayStep_end :: "XRayStep \<Rightarrow> real \<Rightarrow> XRayStep" where
  "XRayStep_end st clock = st\<lparr>step_duration_ms := (clock - step_start_time st) * 1000\<rparr>"

text \<open>
  \<^verbatim>\<open>
  def add_reasoning(self, reasoning: str):
      self.reasoning = reasoning
  \<close>
\<close>

definition XRayStep_add_reasoning :: "XRayStep \<Rightarrow> string \<Rightarrow> XRayStep" where
  "XRayStep_add_reasoning st reasoning = st\<lparr>step_reasoning := reasoning\<rparr>"

text \<open>
  The dict \<^verbatim>\<open>to_dict\<close> returns, which is what a trace holds of a closed step. A dict
  may lack a key, and \<^verbatim>\<open>XRay.add_reasoning\<close> tests \<^verbatim>\<open>"reasoning" in steps[-1]\<close>,
  so that entry is optional here; \<^verbatim>\<open>to_dict\<close> always writes it.
\<close>

record step_dict =
  d_id :: string
  d_name :: string
  d_step_type :: string
  d_input :: "(string \<times> json) list"
  d_output :: "(string \<times> json) list"
  d_reasoning :: "string option"
  d_timestamp :: string
  d_duration_ms :: real
  d_success :: bool
  d_error :: "string option"

definition to_dict :: "XRayStep \<Rightarrow> step_dict" where
  "to_dict st =
     \<lparr> d_id = step_id st,
       d_name = step_name st,
       d_step_type = step_type st,
       d_input = step_input st,
       d_output = step_output st,
       d_reasoning = Some (step_reasoning st),
       d_timestamp = step_timestamp st,
       d_duration_ms = py_round2 (step_duration_ms st),
       d_success = step_success st,
       d_error = step_error st \<rparr>"

section \<open>The tracer: \<^verbatim>\<open>class XRay\<close>\<close>

text \<open>
  A trace dict of \<^verbatim>\<open>self.traces\<close>. \<^verbatim>\<open>end_time\<close>, \<^verbatim>\<open>total_steps\<close> and
  \<^verbatim>\<open>total_duration_ms\<close> are written by \<^verbatim>\<open>end_trace\<close> only. The total is a
  number as Python has it: \<^verbatim>\<open>sum\<close> of no floats is the integer 0.
\<close>

record trace =
  trace_id :: string
  trace_name :: string
  start_time :: string
  steps :: "step_dict list"
  end_time :: "string option"
  total_steps :: "int option"
  total_duration_ms :: "json option"

record xray =
  current_trace_id :: "string option"
  traces :: "string \<rightharpoonup> trace"
  current_step :: "XRayStep option"

definition XRay_init :: xray where
  "XRay_init = \<lparr> current_trace_id = None, traces = Map.empty, current_step = None \<rparr>"

text \<open>Truthiness of \<^verbatim>\<open>self.current_trace_id\<close>: \<^verbatim>\<open>None\<close> and the empty string are false.\<close>

definition active_id :: "xray \<Rightarrow> string option" where
  "active_id self =
     (case current_trace_id self of None \<Rightarrow> None | Some t \<Rightarrow> if t = [] then None else Some t)"

definition quoted :: "string \<Rightarrow> string" where
  "quoted s = [CHR 0x27] @ s @ [CHR 0x27]"

definition KeyError :: "string \<Rightarrow> exn" where
  "KeyError k = Exn True ''KeyError'' (quoted k)"

text \<open>What an attribute access on \<^verbatim>\<open>None\<close> raises.\<close>

definition AttributeError :: "string \<Rightarrow> exn" where
  "AttributeError attr =
     Exn True ''AttributeError'' (quoted ''NoneType'' @ '' object has no attribute '' @ quoted attr)"

text \<open>
  \<^verbatim>\<open>
  def start_trace(self, trace_name: str = ""):
      timestamp = int(time.time())
      short_id = uuid.uuid4().hex[:8]
      self.current_trace_id = f"trace_{timestamp}_{short_id}"
      self.traces[self.current_trace_id] = {
          "id": self.current_trace_id, "name": trace_name,
          "start_time": datetime.now().isoformat(), "steps": []}
      return self.current_trace_id
  \<close>
  The readings of the clock, of \<^verbatim>\<open>uuid4().hex\<close> and of \<^verbatim>\<open>datetime.now()\<close> are
  arguments. Console output is not modelled, here and below: a \<^verbatim>\<open>print\<close> is taken
  to succeed.
\<close>

definition start_trace :: "xray \<Rightarrow> string \<Rightarrow> real \<Rightarrow> string \<Rightarrow> string \<Rightarrow> string \<times> xray" where
  "start_trace self name clock uuid_hex now =
     (let tid = ''trace_'' @ str_int (int_of_float clock) @ ''_'' @ take 8 uuid_hex;
          tr = \<lparr> trace_id = tid, trace_name = name, start_time = now, steps = [],
                 end_time = None, total_steps = None, total_duration_ms = None \<rparr>
      in (tid, self\<lparr>current_trace_id := Some tid, traces := (traces self)(tid \<mapsto> tr)\<rparr>))"


subsection \<open>\<^verbatim>\<open>XRay._capture_input\<close>\<close>

text \<open>
  \<^verbatim>\<open>
  def _capture_input(self, args, kwargs):
      input_data = {}
      start_idx = 0
      if args and hasattr(args[0], '__class__'):
          input_data["self"] = f"{args[0].__class__.__name__} object"
          start_idx = 1
      for i, arg in enumerate(args[start_idx:], start=start_idx):
          input_data[f"arg_{i}"] = self._make_json_safe(arg)
      for key, value in kwargs.items():
          input_data[key] = self._make_json_safe(value)
      return input_data
  \<close>
  Every Python object has the attribute \<^verbatim>\<open>__class__\<close>.
\<close>

definition has_class_attr :: "pyval \<Rightarrow> bool" where
  "has_class_attr v = True"

fun capture_args :: "nat \<Rightarrow> pyval list \<Rightarrow> (string \<times> json) list \<Rightarrow> exn + (string \<times> json) list" where
  "capture_args i [] input_data = Inr input_data"
| "capture_args i (arg # rest) input_data =
     (case make_json_safe arg of
        Inl e \<Rightarrow> Inl e
      | Inr j \<Rightarrow> capture_args (Suc i) rest (dict_set (''arg_'' @ str_int (int i)) j input_data))"

fun capture_kwargs :: "(string \<times> pyval) list \<Rightarrow> (string \<times> json) list \<Rightarrow> exn + (string \<times> json) list" where
  "capture_kwargs [] input_data = Inr input_data"
| "capture_kwargs ((key, val) # rest) input_data =
     (case make_json_safe val of
        Inl e \<Rightarrow> Inl e
      | Inr j \<Rightarrow> capture_kwargs rest (dict_set key j input_data))"

definition capture_input :: "pyval list \<Rightarrow> (string \<times> pyval) list \<Rightarrow> exn + (string \<times> json) list" where
  "capture_input args kwargs =
     (let (input_data, start_idx) =
            (if args \<noteq> [] \<and> has_class_attr (hd args)
             then ([(''self'', JStr (type_name (hd args) @ '' object''))], 1)
             else ([], 0))
      in case capture_args start_idx (drop start_idx args) input_data of
           Inl e \<Rightarrow> Inl e
         | Inr d \<Rightarrow> capture_kwargs kwargs d)"

subsection \<open>\<^verbatim>\<open>XRay.trace\<close>: the wrapper\<close>

text \<open>
  \<^verbatim>\<open>
  def wrapper(*args, **kwargs):
      self._current_step = XRayStep(name, step_type)
      self._current_step.input = self._capture_input(args, kwargs)
      try:
          result = func(*args, **kwargs)
          self._current_step.output = {"result": self._make_json_safe(result)}
          self._current_step.success = True
          return result
      except Exception as e:
          self._current_step.success = False
          self._current_step.error = str(e)
          raise
      finally:
          self._current_step.end()
          if self.current_trace_id and self.current_trace_id in self.traces:
              self.traces[self.current_trace_id]["steps"].append(
                  self._current_step.to_dict())
          self._show_step_info(self._current_step)
          self._current_step = None
  \<close>
  The wrapped function runs on the tracer it is decorated with, so it is a function of
  the tracer's state: it may call \<^verbatim>\<open>add_reasoning\<close>, another wrapper, or any other
  operation, and returns a value or raises. The wrapper reaches the step only through
  \<^verbatim>\<open>self._current_step\<close>; where that is \<^verbatim>\<open>None\<close> the attribute access raises.
\<close>

type_synonym pyfunc = "pyval list \<Rightarrow> (string \<times> pyval) list \<Rightarrow> xray \<Rightarrow> (exn + pyval) \<times> xray"

text \<open>The two statements before \<^verbatim>\<open>try\<close>.\<close>

definition wrapper_enter ::
  "xray \<Rightarrow> string \<Rightarrow> string \<Rightarrow> pyval list \<Rightarrow> (string \<times> pyval) list \<Rightarrow> step_env \<Rightarrow> (exn + unit) \<times> xray" where
  "wrapper_enter self name stype args kwargs env =
     (let st = XRayStep_init name stype env;
          s0 = self\<lparr>current_step := Some st\<rparr>
      in case capture_input args kwargs of
           Inl e \<Rightarrow> (Inl e, s0)
         | Inr inp \<Rightarrow> (Inr (), s0\<lparr>current_step := Some (st\<lparr>step_input := inp\<rparr>)\<rparr>))"

text \<open>
  The \<^verbatim>\<open>except Exception\<close> clause, entered with the exception \<open>e\<close>. Where
  \<^verbatim>\<open>str(e)\<close> raises, \<^verbatim>\<open>success\<close> is already false, \<^verbatim>\<open>error\<close> is left as
  it was, and the new exception takes the place of \<open>e\<close>.
\<close>

definition wrapper_except :: "xray \<Rightarrow> exn \<Rightarrow> (exn + pyval) \<times> xray" where
  "wrapper_except self e =
     (if is_Exception e then
        (case current_step self of
           None \<Rightarrow> (Inl (AttributeError ''success''), self)
         | Some st \<Rightarrow>
             (case str_exn e of
                Inl e' \<Rightarrow> (Inl e', self\<lparr>current_step := Some (st\<lparr>step_success := False\<rparr>)\<rparr>)
              | Inr msg \<Rightarrow>
                  (Inl e, self\<lparr>current_step := Some (st\<lparr>step_success := False, step_error := Some msg\<rparr>)\<rparr>)))
      else (Inl e, self))"

text \<open>
  The \<^verbatim>\<open>try\<close> block after \<^verbatim>\<open>func\<close> has returned or raised \<open>r\<close>, with its
  \<^verbatim>\<open>except\<close> clause. The right-hand side of the assignment to \<^verbatim>\<open>output\<close> is
  evaluated before the attribute is set.
\<close>

definition wrapper_try :: "xray \<Rightarrow> exn + pyval \<Rightarrow> (exn + pyval) \<times> xray" where
  "wrapper_try self r =
     (case r of
        Inl e \<Rightarrow> wrapper_except self e
      | Inr result \<Rightarrow>
          (case make_json_safe result of
             Inl e \<Rightarrow> wrapper_except self e
           | Inr j \<Rightarrow>
               (case current_step self of
                  None \<Rightarrow> wrapper_except self (AttributeError ''output'')
                | Some st \<Rightarrow>
                    (Inr result,
                     self\<lparr>current_step := Some (st\<lparr>step_output := [(''result'', j)], step_success := True\<rparr>)\<rparr>))))"

text \<open>
  The \<^verbatim>\<open>finally\<close> block, \<open>r\<close> being the pending return value or exception. An
  exception raised in the block replaces \<open>r\<close>.
\<close>

definition wrapper_finally :: "xray \<Rightarrow> exn + pyval \<Rightarrow> real \<Rightarrow> (exn + pyval) \<times> xray" where
  "wrapper_finally self r clock =
     (case current_step self of
        None \<Rightarrow> (Inl (AttributeError ''end''), self)
      | Some st \<Rightarrow>
          (let st' = XRayStep_end st clock;
               self' = (case active_id self of
                          None \<Rightarrow> self
                        | Some tid \<Rightarrow>
                            (case traces self tid of
                               None \<Rightarrow> self
                             | Some tr \<Rightarrow>
                                 self\<lparr>traces := (traces self)(tid \<mapsto> tr\<lparr>steps := steps tr @ [to_dict st']\<rparr>)\<rparr>))
           in (r, self'\<lparr>current_step := None\<rparr>)))"

text \<open>Everything after \<^verbatim>\<open>func\<close> has returned or raised \<open>r\<close>.\<close>

definition wrapper_exit :: "xray \<Rightarrow> exn + pyval \<Rightarrow> real \<Rightarrow> (exn + pyval) \<times> xray" where
  "wrapper_exit self r clock = (let (r', s3) = wrapper_try self r in wrapper_finally s3 r' clock)"

definition wrapper ::
  "xray \<Rightarrow> string \<Rightarrow> string \<Rightarrow> pyfunc \<Rightarrow> pyval list \<Rightarrow> (string \<times> pyval) list \<Rightarrow> step_env \<Rightarrow> (exn + pyval) \<times> xray" where
  "wrapper self name stype func args kwargs env =
     (case wrapper_enter self name stype args kwargs env of
        (Inl e, s0) \<Rightarrow> (Inl e, s0)
      | (Inr _, s1) \<Rightarrow>
          (let (r, s2) = func args kwargs s1
           in wrapper_exit s2 r (env_clock_end env)))"

subsection \<open>\<^verbatim>\<open>XRay.add_reasoning\<close>\<close>

text \<open>
  \<^verbatim>\<open>
  def add_reasoning(self, reasoning: str):
      if self._current_step:
          self._current_step.add_reasoning(reasoning)
      else:
          if self.current_trace_id and self.traces[self.current_trace_id]["steps"]:
              steps = self.traces[self.current_trace_id]["steps"]
              if steps:
                  # APPEND to existing reasoning, not overwrite!
                  if "reasoning" in steps[-1]:
                      steps[-1]["reasoning"] += f"\n{reasoning}"
                  else:
                      steps[-1]["reasoning"] = reasoning
  \<close>
\<close>

definition add_reasoning :: "xray \<Rightarrow> string \<Rightarrow> (exn + unit) \<times> xray" where
  "add_reasoning self reasoning =
     (case current_step self of
        Some st \<Rightarrow> (Inr (), self\<lparr>current_step := Some (XRayStep_add_reasoning st reasoning)\<rparr>)
      | None \<Rightarrow>
          (case active_id self of
             None \<Rightarrow> (Inr (), self)
           | Some tid \<Rightarrow>
               (case traces self tid of
                  None \<Rightarrow> (Inl (KeyError tid), self)
                | Some tr \<Rightarrow>
                    if steps tr = [] then (Inr (), self)
                    else
                      (let d = last (steps tr);
                           d' = (case d_reasoning d of
                                   Some old \<Rightarrow> d\<lparr>d_reasoning := Some (old @ [CHR 0x0A] @ reasoning)\<rparr>
                                 | None \<Rightarrow> d\<lparr>d_reasoning := Some reasoning\<rparr>)
                       in (Inr (),
                           self\<lparr>traces := (traces self)(tid \<mapsto> tr\<lparr>steps := butlast (steps tr) @ [d']\<rparr>)\<rparr>)))))"


subsection \<open>Persistence: \<^verbatim>\<open>XRay._save_to_file\<close> and \<^verbatim>\<open>XRay.end_trace\<close>\<close>

text \<open>
  The text of a file or of a request body, as far as \<^verbatim>\<open>json.load\<close> tells: the value
  it parses to, or the exception the parser raises (one of the library's). What \<^verbatim>\<open>json.dump\<close> has written
  parses to the value written. The working directory is a list of named files, in the
  order \<^verbatim>\<open>os.listdir\<close> gives them.
\<close>

datatype file_content = Json_text json | Malformed exn

type_synonym fs = "(string \<times> file_content) list"

text \<open>The dicts as \<^verbatim>\<open>json.dump\<close> writes them, entries in insertion order.\<close>

definition step_json :: "step_dict \<Rightarrow> json" where
  "step_json d =
     JObj ([(''id'', JStr (d_id d)),
            (''name'', JStr (d_name d)),
            (''step_type'', JStr (d_step_type d)),
            (''input'', JObj (d_input d)),
            (''output'', JObj (d_output d))] @
           (case d_reasoning d of None \<Rightarrow> [] | Some r \<Rightarrow> [(''reasoning'', JStr r)]) @
           [(''timestamp'', JStr (d_timestamp d)),
            (''duration_ms'', JFloat (d_duration_ms d)),
            (''success'', JBool (d_success d)),
            (''error'', (case d_error d of None \<Rightarrow> JNull | Some e \<Rightarrow> JStr e))])"

definition trace_json :: "trace \<Rightarrow> json" where
  "trace_json tr =
     JObj ([(''id'', JStr (trace_id tr)),
            (''name'', JStr (trace_name tr)),
            (''start_time'', JStr (start_time tr)),
            (''steps'', JArr (map step_json (steps tr)))] @
           (case end_time tr of None \<Rightarrow> [] | Some t \<Rightarrow> [(''end_time'', JStr t)]) @
           (case total_steps tr of None \<Rightarrow> [] | Some n \<Rightarrow> [(''total_steps'', JInt n)]) @
           (case total_duration_ms tr of None \<Rightarrow> [] | Some x \<Rightarrow> [(''total_duration_ms'', x)]))"

text \<open>
  \<^verbatim>\<open>
  def _save_to_file(self, trace_id: str):
      if trace_id in self.traces:
          filename = f"trace_{trace_id}.json"
          try:
              with open(filename, 'w') as f:
                  json.dump(self.traces[trace_id], f, indent=2)
          except Exception as e:
              print(f"   Couldn't save: {e}")
  \<close>
  Whether the write succeeds is the environment's choice; a failed write is taken to
  leave the directory as it was.
\<close>

definition save_to_file :: "xray \<Rightarrow> string \<Rightarrow> bool \<Rightarrow> fs \<Rightarrow> fs" where
  "save_to_file self tid write_ok files =
     (case traces self tid of
        None \<Rightarrow> files
      | Some tr \<Rightarrow>
          if write_ok then dict_set (''trace_'' @ tid @ ''.json'') (Json_text (trace_json tr)) files
          else files)"

text \<open>
  \<^verbatim>\<open>round(sum(step["duration_ms"] for step in trace["steps"]), 2)\<close>: the sum starts
  from the integer 0, and rounding an integer gives an integer.
\<close>

definition total_duration :: "real list \<Rightarrow> json" where
  "total_duration ds = (if ds = [] then JInt 0 else JFloat (py_round2 (sum_list ds)))"

text \<open>The number a JSON value denotes.\<close>

fun num_value :: "json \<Rightarrow> real option" where
  "num_value (JInt i) = Some (of_int i)"
| "num_value (JFloat r) = Some r"
| "num_value _ = None"

text \<open>
  \<^verbatim>\<open>
  def end_trace(self):
      if not self.current_trace_id:
          return None
      trace = self.traces[self.current_trace_id]
      trace["end_time"] = datetime.now().isoformat()
      trace["total_steps"] = len(trace["steps"])
      total_time = sum(step["duration_ms"] for step in trace["steps"])
      trace["total_duration_ms"] = round(total_time, 2)
      case_id = self.current_trace_id
      self._save_to_file(case_id)
      self.current_trace_id = None
      self._current_step = None
      return case_id
  \<close>
\<close>

definition end_trace :: "xray \<Rightarrow> string \<Rightarrow> bool \<Rightarrow> fs \<Rightarrow> (exn + string option) \<times> xray \<times> fs" where
  "end_trace self now write_ok files =
     (case active_id self of
        None \<Rightarrow> (Inr None, self, files)
      | Some tid \<Rightarrow>
          (case traces self tid of
             None \<Rightarrow> (Inl (KeyError tid), self, files)
           | Some tr \<Rightarrow>
               (let tr' = tr\<lparr>end_time := Some now,
                             total_steps := Some (int (length (steps tr))),
                             total_duration_ms := Some (total_duration (map d_duration_ms (steps tr)))\<rparr>;
                    self' = self\<lparr>traces := (traces self)(tid \<mapsto> tr')\<rparr>;
                    files' = save_to_file self' tid write_ok files
                in (Inr (Some tid), self'\<lparr>current_trace_id := None, current_step := None\<rparr>, files'))))"

section \<open>The dashboard: \<^verbatim>\<open>class DashboardHandler\<close>\<close>

text \<open>
  A response: a JSON body with its status, an error page (\<^verbatim>\<open>send_error\<close>) with its
  status, or the HTML page. The text of an error page is not modelled.
\<close>

datatype response = Json_response nat json | Error_response nat | Html_response nat

definition startswith :: "string \<Rightarrow> string \<Rightarrow> bool" where
  "startswith s p = (take (length p) s = p)"

definition endswith :: "string \<Rightarrow> string \<Rightarrow> bool" where
  "endswith s p = (length p \<le> length s \<and> drop (length s - length p) s = p)"

text \<open>
  \<^verbatim>\<open>s.replace(old, new)\<close>: the occurrences of \<open>old\<close> from the left, not
  overlapping. Where \<open>old\<close> matches at \<open>c # cs\<close> the scan goes on after it, that is
  at \<open>drop (length old - 1) cs\<close>.
\<close>

fun str_replace :: "string \<Rightarrow> string \<Rightarrow> string \<Rightarrow> string" where
  "str_replace old new [] = (if old = [] then new else [])"
| "str_replace old new (c # cs) =
     (if old = [] then new @ c # str_replace old new cs
      else if startswith (c # cs) old then new @ str_replace old new (drop (length old - 1) cs)
      else c # str_replace old new cs)"

text \<open>\<^verbatim>\<open>data.get(key, default)\<close>\<close>

definition dict_get :: "(string \<times> json) list \<Rightarrow> string \<Rightarrow> json \<Rightarrow> json" where
  "dict_get data key dflt = (case map_of data key of Some v \<Rightarrow> v | None \<Rightarrow> dflt)"

text \<open>
  \<^verbatim>\<open>
  def _send_trace_list(self):
      trace_files = []
      for file in os.listdir('.'):
          if file.startswith('trace_') and file.endswith('.json'):
              try:
                  with open(file, 'r') as f:
                      data = json.load(f)
                      trace_files.append({
                          "id": data.get("id", file.replace('trace_', '').replace('.json', '')),
                          "name": data.get("name", "Trace"),
                          "start_time": data.get("start_time", ""),
                          "total_steps": data.get("total_steps", 0),
                          "total_duration_ms": data.get("total_duration_ms", 0)
                      })
              except Exception as e:
                  print(f"Error reading {file}: {e}")
                  continue
      trace_files.sort(key=lambda x: x.get("start_time", ""), reverse=True)
      self._send_json_response(trace_files)
  \<close>
  Only a dict has \<^verbatim>\<open>get\<close>: on any other parsed value the call raises inside the
  \<^verbatim>\<open>try\<close>.
\<close>

definition summary_of :: "string \<Rightarrow> (string \<times> json) list \<Rightarrow> json" where
  "summary_of file data =
     JObj [(''id'', dict_get data ''id'' (JStr (str_replace ''.json'' [] (str_replace ''trace_'' [] file)))),
           (''name'', dict_get data ''name'' (JStr ''Trace'')),
           (''start_time'', dict_get data ''start_time'' (JStr [])),
           (''total_steps'', dict_get data ''total_steps'' (JInt 0)),
           (''total_duration_ms'', dict_get data ''total_duration_ms'' (JInt 0))]"

fun read_traces :: "fs \<Rightarrow> json list" where
  "read_traces [] = []"
| "read_traces ((file, content) # rest) =
     (if startswith file ''trace_'' \<and> endswith file ''.json'' then
        (case content of
           Json_text (JObj data) \<Rightarrow> summary_of file data # read_traces rest
         | _ \<Rightarrow> read_traces rest)
      else read_traces rest)"

text \<open>
  \<^verbatim>\<open>x.get("start_time", "")\<close> of a summary, and the sort on it. With
  \<^verbatim>\<open>reverse=True\<close> Python reverses the list, sorts it stably in ascending order and
  reverses the result. Strings compare by their characters. No comparison is made in a
  list of fewer than two entries. What the sort does on other keys (an error for keys
  of mixed types) is the parameter \<open>sort_other\<close>.
\<close>

definition start_time_key :: "json \<Rightarrow> json" where
  "start_time_key x = (case x of JObj d \<Rightarrow> dict_get d ''start_time'' (JStr []) | _ \<Rightarrow> JStr [])"

fun is_JStr :: "json \<Rightarrow> bool" where
  "is_JStr (JStr _) = True"
| "is_JStr _ = False"

fun str_of :: "json \<Rightarrow> string" where
  "str_of (JStr s) = s"
| "str_of _ = []"

definition sort_by_start_time :: "(json list \<Rightarrow> exn + json list) \<Rightarrow> json list \<Rightarrow> exn + json list" where
  "sort_by_start_time sort_other xs =
     (if length xs \<le> 1 then Inr xs
      else if list_all (\<lambda>x. is_JStr (start_time_key x)) xs
      then Inr (rev (sort_key (\<lambda>x. str_of (start_time_key x)) (rev xs)))
      else sort_other xs)"

definition send_trace_list :: "(json list \<Rightarrow> exn + json list) \<Rightarrow> fs \<Rightarrow> exn + response" where
  "send_trace_list sort_other files =
     (case sort_by_start_time sort_other (read_traces files) of
        Inl e \<Rightarrow> Inl e
      | Inr trace_files \<Rightarrow> Inr (Json_response 200 (JArr trace_files)))"

text \<open>
  \<^verbatim>\<open>
  def _send_single_trace(self, trace_id):
      file_name = f"trace_{trace_id}.json"
      if os.path.exists(file_name):
          with open(file_name, 'r') as f:
              trace_data = json.load(f)
          self._send_json_response(trace_data)
      else:
          self.send_error(404, f"Trace {trace_id} not found")
  \<close>
\<close>

definition send_single_trace :: "fs \<Rightarrow> string \<Rightarrow> exn + response" where
  "send_single_trace files tid =
     (case map_of files (''trace_'' @ tid @ ''.json'') of
        None \<Rightarrow> Inr (Error_response 404)
      | Some (Malformed e) \<Rightarrow> Inl e
      | Some (Json_text trace_data) \<Rightarrow> Inr (Json_response 200 trace_data))"

text \<open>
  \<^verbatim>\<open>
  def _save_new_trace(self):
      try:
          length = int(self.headers['Content-Length'])
          data = self.rfile.read(length)
          trace = json.loads(data)
          file_name = f"trace_{trace['id']}.json"
          with open(file_name, 'w') as f:
              json.dump(trace, f, indent=2)
          self.send_response(201)
          ...
          self.wfile.write(json.dumps({"ok": True, "id": trace['id']}).encode())
      except Exception as e:
          self.send_error(500, f"Save failed: {str(e)}")
  \<close>
  \<open>body\<close> is what reading and parsing the request gives. \<^verbatim>\<open>trace['id']\<close> raises on
  a dict without that key and on every value that is not a dict: \<open>subscript\<close> is
  \<^verbatim>\<open>v[key]\<close> on a parsed value, \<open>None\<close> where it raises. In the file name a
  string stands as it is; how Python prints a float, a list or a dict there is the
  parameter \<open>repr\<close>.
\<close>

definition subscript :: "json \<Rightarrow> string \<Rightarrow> json option" where
  "subscript v key = (case v of JObj d \<Rightarrow> map_of d key | _ \<Rightarrow> None)"

definition py_format :: "(json \<Rightarrow> string) \<Rightarrow> json \<Rightarrow> string" where
  "py_format repr v =
     (case v of
        JStr s \<Rightarrow> s
      | JInt i \<Rightarrow> str_int i
      | JBool b \<Rightarrow> (if b then ''True'' else ''False'')
      | JNull \<Rightarrow> ''None''
      | _ \<Rightarrow> repr v)"

definition save_new_trace :: "(json \<Rightarrow> string) \<Rightarrow> fs \<Rightarrow> file_content \<Rightarrow> bool \<Rightarrow> response \<times> fs" where
  "save_new_trace repr files body write_ok =
     (case body of
        Malformed e \<Rightarrow> (Error_response 500, files)
      | Json_text trace \<Rightarrow>
          (case subscript trace ''id'' of
             None \<Rightarrow> (Error_response 500, files)
           | Some i \<Rightarrow>
               if write_ok
               then (Json_response 201 (JObj [(''ok'', JBool True), (''id'', i)]),
                     dict_set (''trace_'' @ py_format repr i @ ''.json'') (Json_text trace) files)
               else (Error_response 500, files)))"

text \<open>
  \<^verbatim>\<open>
  def do_GET(self):
      path = urllib.parse.urlparse(self.path).path
      if path == '/':
          self._show_dashboard()
      elif path == '/api/traces':
          self._send_trace_list()
      elif path.startswith('/api/trace/'):
          trace_id = path.split('/')[-1]
          self._send_single_trace(trace_id)
      else:
          self.send_error(404, "Not found")
  \<close>
  \<^verbatim>\<open>self.path\<close> is the target of the request line, as sent: the handler splits
  the request line at whitespace, so a target holds none, and nothing decodes
  percent-escapes.
\<close>

text \<open>The characters at which \<^verbatim>\<open>str.split()\<close> splits a request line.\<close>

definition py_whitespace :: "char \<Rightarrow> bool" where
  "py_whitespace c =
     (c \<in> set [CHR 0x09, CHR 0x0A, CHR 0x0B, CHR 0x0C, CHR 0x0D, CHR 0x1C, CHR 0x1D,
                CHR 0x1E, CHR 0x1F, CHR 0x20, CHR 0x85, CHR 0xA0])"

definition last_segment :: "string \<Rightarrow> string" where
  "last_segment path = rev (takeWhile (\<lambda>c. c \<noteq> CHR ''/'') (rev path))"

text \<open>
  \<^verbatim>\<open>urllib.parse.urlparse(target).path\<close>. A target that begins with one slash has
  no scheme and no host: its path ends before the first \<^verbatim>\<open>?\<close> or \<^verbatim>\<open>#\<close>, and
  \<^verbatim>\<open>urlparse\<close> then cuts the last segment at its first \<^verbatim>\<open>;\<close> (the parameters).
  What the library makes of any other string (it may raise) is the parameter
  \<open>urlparse_other\<close>.
\<close>

definition split_params :: "string \<Rightarrow> string" where
  "split_params url =
     (let seg = last_segment url
      in if CHR 0x3B \<in> set seg
         then take (length url - length seg) url @ takeWhile (\<lambda>c. c \<noteq> CHR 0x3B) seg
         else url)"

definition urlparse_path :: "(string \<Rightarrow> exn + string) \<Rightarrow> string \<Rightarrow> exn + string" where
  "urlparse_path urlparse_other target =
     (if startswith target ''/'' \<and> \<not> startswith target ''//'' \<and> list_all (\<lambda>c. \<not> py_whitespace c) target
      then Inr (split_params (takeWhile (\<lambda>c. c \<noteq> CHR ''?'' \<and> c \<noteq> CHR ''#'') target))
      else urlparse_other target)"

definition do_GET ::
  "(string \<Rightarrow> exn + string) \<Rightarrow> (json list \<Rightarrow> exn + json list) \<Rightarrow> fs \<Rightarrow> string \<Rightarrow> exn + response" where
  "do_GET urlparse_other sort_other files target =
     (case urlparse_path urlparse_other target of
        Inl e \<Rightarrow> Inl e
      | Inr path \<Rightarrow>
          if path = ''/'' then Inr (Html_response 200)
          else if path = ''/api/traces'' then send_trace_list sort_other files
          else if startswith path ''/api/trace/'' then send_single_trace files (last_segment path)
          else Inr (Error_response 404))"

text \<open>\<^verbatim>\<open>do_POST\<close> compares \<^verbatim>\<open>self.path\<close> itself.\<close>

definition do_POST :: "(json \<Rightarrow> string) \<Rightarrow> fs \<Rightarrow> string \<Rightarrow> file_content \<Rightarrow> bool \<Rightarrow> response \<times> fs" where
  "do_POST repr files path body write_ok =
     (if path = ''/api/traces'' then save_new_trace repr files body write_ok
      else (Error_response 404, files))"


section \<open>Reachable states of the tracer\<close>

text \<open>
  The states the tracer can be in: the initial one, and those the public operations
  lead to. An instrumented call is \<open>wrapper_enter\<close>, then the wrapped function, then
  \<open>wrapper_exit\<close>; the wrapped function is itself a sequence of operations on the
  tracer (instrumented calls among them) that may stop anywhere with an exception. So
  every state of every run is reached by the transitions below.
\<close>

inductive reachable :: "xray \<Rightarrow> bool" where
  init: "reachable XRay_init"
| start: "reachable s \<Longrightarrow> reachable (snd (start_trace s name clock uuid_hex now))"
| reason: "reachable s \<Longrightarrow> reachable (snd (add_reasoning s reasoning))"
| finish: "reachable s \<Longrightarrow> reachable (fst (snd (end_trace s now write_ok files)))"
| enter: "reachable s \<Longrightarrow> reachable (snd (wrapper_enter s name stype args kwargs env))"
| leave: "reachable s \<Longrightarrow> reachable (snd (wrapper_exit s r clock))"

text \<open>The active trace, if there is one, has a non-empty id and is in the table.\<close>

definition active_in_table :: "xray \<Rightarrow> bool" where
  "active_in_table s =
     (case current_trace_id s of None \<Rightarrow> True | Some tid \<Rightarrow> tid \<noteq> [] \<and> traces s tid \<noteq> None)"


section \<open>Example runs\<close>

text \<open>The readings of two instrumented calls, 500 ms and 250 ms long.\<close>

definition env_A :: step_env where
  "env_A = \<lparr> env_uuid = ''1b4e28ba-2fa1-11d2-883f-0016d3cca427'', env_now = ''2024-01-01T10:00:01'',
             env_clock_start = 100, env_clock_end = 100.5 \<rparr>"

definition env_B :: step_env where
  "env_B = \<lparr> env_uuid = ''6fa459ea-ee8a-3ca4-894e-db77e160355e'', env_now = ''2024-01-01T10:00:02'',
             env_clock_start = 100.125, env_clock_end = 100.375 \<rparr>"

text \<open>The tracer after \<^verbatim>\<open>start_trace("demo")\<close>; the id is \<^verbatim>\<open>trace_1700000000_abcdef01\<close>.\<close>

definition s_started :: xray where
  "s_started = snd (start_trace XRay_init ''demo'' 1700000000 ''abcdef0123456789abcdef0123456789'' ''2024-01-01T10:00:00'')"

text \<open>Inside an instrumented call of that trace, before the wrapped function runs.\<close>

definition s_open :: xray where
  "s_open = snd (wrapper_enter s_started ''Step A'' ''x'' [] [] env_A)"

text \<open>Wrapped functions: one returns 42, one raises \<^verbatim>\<open>ValueError("boom")\<close>.\<close>

definition returns_42 :: pyfunc where
  "returns_42 args kwargs s = (Inr (PInt 42), s)"

definition boom :: exn where
  "boom = Exn True ''ValueError'' ''boom''"

definition raises_boom :: pyfunc where
  "raises_boom args kwargs s = (Inl boom, s)"

text \<open>
  \<^verbatim>\<open>
  @xray.trace("inner", "x")
  def inner(): return 42

  @xray.trace("outer", "x")
  def outer(): return inner()

  @xray.trace("outer", "x")
  def outer_failing():
      inner()
      raise ValueError("boom")
  \<close>
  The bodies of \<^verbatim>\<open>outer\<close> and of \<^verbatim>\<open>outer_failing\<close>:
\<close>

definition calls_inner :: pyfunc where
  "calls_inner args kwargs s = wrapper s ''inner'' ''x'' returns_42 [] [] env_B"

definition calls_inner_then_raises :: pyfunc where
  "calls_inner_then_raises args kwargs s =
     (case wrapper s ''inner'' ''x'' returns_42 [] [] env_B of
        (Inl e, s') \<Rightarrow> (Inl e, s')
      | (Inr _, s') \<Rightarrow> (Inl boom, s'))"

text \<open>
  More wrapped functions: one returns a dict with a key whose \<^verbatim>\<open>__str__\<close> raises
  \<^verbatim>\<open>ValueError("bad key")\<close>, one raises an exception whose own \<^verbatim>\<open>__str__\<close>
  raises \<^verbatim>\<open>RuntimeError("no message")\<close>, one raises \<^verbatim>\<open>KeyboardInterrupt\<close>.
\<close>

definition bad_key_dict :: pyval where
  "bad_key_dict = PDict [(Inl (Exn True ''ValueError'' ''bad key''), PInt 1)]"

definition returns_bad_key_dict :: pyfunc where
  "returns_bad_key_dict args kwargs s = (Inr bad_key_dict, s)"

definition unprintable :: exn where
  "unprintable = Unprintable True ''OddError'' (Exn True ''RuntimeError'' ''no message'')"

definition raises_unprintable :: pyfunc where
  "raises_unprintable args kwargs s = (Inl unprintable, s)"

definition interrupt :: exn where
  "interrupt = Exn False ''KeyboardInterrupt'' []"

definition raises_interrupt :: pyfunc where
  "raises_interrupt args kwargs s = (Inl interrupt, s)"

text \<open>The tracer after one instrumented call of \<^verbatim>\<open>returns_42\<close> in the trace.\<close>

definition s_one_step :: xray where
  "s_one_step = snd (wrapper s_started ''Step A'' ''x'' returns_42 [] [] env_A)"


section \<open>Persisted records and their summaries\<close>

text \<open>
  A well-formed persisted trace record has the entries of the record format: an
  \<^verbatim>\<open>id\<close> and a \<^verbatim>\<open>start_time\<close> that are strings, a \<^verbatim>\<open>name\<close>,
  \<^verbatim>\<open>total_steps\<close> and \<^verbatim>\<open>total_duration_ms\<close>. The store keeps the record
  with id \<open>i\<close> in the file \<^verbatim>\<open>trace_<i>.json\<close>. Its summary, in the words of the
  specification, is the record reduced to id, name, start time, total steps and total
  duration.
\<close>

definition well_formed_trace :: "(string \<times> json) list \<Rightarrow> bool" where
  "well_formed_trace d =
     (is_JStr (dict_get d ''id'' JNull) \<and>
      map_of d ''name'' \<noteq> None \<and>
      is_JStr (dict_get d ''start_time'' JNull) \<and>
      map_of d ''total_steps'' \<noteq> None \<and>
      map_of d ''total_duration_ms'' \<noteq> None)"

definition stored_file :: "(string \<times> json) list \<Rightarrow> string \<times> file_content" where
  "stored_file d = (''trace_'' @ str_of (dict_get d ''id'' JNull) @ ''.json'', Json_text (JObj d))"

definition trace_summary :: "(string \<times> json) list \<Rightarrow> json" where
  "trace_summary d =
     JObj (map (\<lambda>key. (key, dict_get d key JNull))
             [''id'', ''name'', ''start_time'', ''total_steps'', ''total_duration_ms''])"

text \<open>Two persisted records, and the record of the scenario \<^verbatim>\<open>{"id": "t1", "name": "demo", "steps": []}\<close>.\<close>

definition record_a :: "(string \<times> json) list" where
  "record_a = [(''id'', JStr ''a1''), (''name'', JStr ''first''), (''start_time'', JStr ''2024-01-01T10:00:00''),
               (''steps'', JArr []), (''end_time'', JStr ''2024-01-01T10:00:05''),
               (''total_steps'', JInt 0), (''total_duration_ms'', JInt 0)]"

definition record_b :: "(string \<times> json) list" where
  "record_b = [(''id'', JStr ''b2''), (''name'', JStr ''second''), (''start_time'', JStr ''2024-01-02T09:30:00''),
               (''steps'', JArr []), (''end_time'', JStr ''2024-01-02T09:30:01''),
               (''total_steps'', JInt 3), (''total_duration_ms'', JFloat 12.5)]"

definition demo_record :: json where
  "demo_record = JObj [(''id'', JStr ''t1''), (''name'', JStr ''demo''), (''steps'', JArr [])]"

text \<open>
  An id that a request for \<^verbatim>\<open>/api/trace/<id>\<close> can carry as it is: printable
  ASCII characters other than \<^verbatim>\<open>/\<close>, \<^verbatim>\<open>?\<close>, \<^verbatim>\<open>#\<close> and \<^verbatim>\<open>;\<close>, and short
  enough for a request line (the handler refuses one longer than 65536 bytes).
\<close>

definition printable_ascii :: "char \<Rightarrow> bool" where
  "printable_ascii c = (0x21 \<le> (of_char c :: nat) \<and> (of_char c :: nat) \<le> 0x7E)"

definition url_safe :: "string \<Rightarrow> bool" where
  "url_safe tid =
     (length tid \<le> 65000 \<and>
      list_all (\<lambda>c. printable_ascii c \<and> c \<notin> set [CHR ''/'', CHR ''?'', CHR ''#'', CHR 0x3B]) tid)"

text \<open>
  Records with the ids \<^verbatim>\<open>a?b\<close> and \<^verbatim>\<open>a/b\<close>. The file of the second lies in
  the subdirectory \<^verbatim>\<open>trace_a\<close>: the write succeeds only where that exists.
\<close>

definition query_record :: json where
  "query_record = JObj [(''id'', JStr ''a?b''), (''name'', JStr ''demo''), (''steps'', JArr [])]"

definition slash_record :: json where
  "slash_record = JObj [(''id'', JStr ''a/b''), (''name'', JStr ''demo''), (''steps'', JArr [])]"

text \<open>Stand-ins for the parameters: a sort and a parser that raise, and a printer of values.\<close>

definition urlparse_raises :: "string \<Rightarrow> exn + string" where
  "urlparse_raises target = Inl (Exn True ''ValueError'' ''not a request path'')"

definition sort_raises :: "json list \<Rightarrow> exn + json list" where
  "sort_raises xs = Inl (Exn True ''TypeError'' ''unorderable start_time values'')"

definition repr_any :: "json \<Rightarrow> string" where
  "repr_any v = ''?''"

section \<open>The tracer's state invariant\<close>

lemma active_id_eq: "active_in_table s \<Longrightarrow> active_id s = current_trace_id s"
  by (auto simp: active_in_table_def active_id_def split: option.splits)

lemma inv_init: "active_in_table XRay_init"
  by (simp add: active_in_table_def XRay_init_def)

lemma inv_start: "active_in_table (snd (start_trace s name clock uuid_hex now))"
  by (simp add: active_in_table_def start_trace_def Let_def)

lemma inv_reason: "active_in_table s \<Longrightarrow> active_in_table (snd (add_reasoning s reasoning))"
  by (auto simp: active_in_table_def add_reasoning_def Let_def split: option.splits)

lemma inv_finish: "active_in_table s \<Longrightarrow> active_in_table (fst (snd (end_trace s now write_ok files)))"
  by (auto simp: active_in_table_def end_trace_def Let_def split: option.splits)

lemma inv_enter: "active_in_table s \<Longrightarrow> active_in_table (snd (wrapper_enter s name stype args kwargs env))"
  by (auto simp: active_in_table_def wrapper_enter_def Let_def split: sum.splits option.splits)

lemma inv_except: "active_in_table s \<Longrightarrow> active_in_table (snd (wrapper_except s e))"
  by (auto simp: active_in_table_def wrapper_except_def split: option.splits sum.splits)

lemma inv_try: "active_in_table s \<Longrightarrow> active_in_table (snd (wrapper_try s r))"
  by (auto simp: wrapper_try_def inv_except split: sum.splits option.splits)
     (auto simp: active_in_table_def split: option.splits)

lemma inv_finally: "active_in_table s \<Longrightarrow> active_in_table (snd (wrapper_finally s r clock))"
  by (auto simp: active_in_table_def wrapper_finally_def Let_def split: option.splits)

lemma inv_exit: "active_in_table s \<Longrightarrow> active_in_table (snd (wrapper_exit s r clock))"
  by (simp add: wrapper_exit_def split_beta inv_try inv_finally)

lemma reachable_inv: "reachable s \<Longrightarrow> active_in_table s"
  by (induction rule: reachable.induct)
     (simp_all add: inv_init inv_start inv_reason inv_finish inv_enter inv_exit)

lemma add_reasoning_no_error: "active_in_table s \<Longrightarrow> fst (add_reasoning s reasoning) = Inr ()"
  by (auto simp: add_reasoning_def active_id_eq active_in_table_def Let_def split: option.splits)

lemma end_trace_active:
  assumes "active_in_table s" and "current_trace_id s = Some tid"
  shows "\<exists>tr. traces s tid = Some tr \<and>
           end_trace s now write_ok files =
             (let tr' = tr\<lparr>end_time := Some now,
                           total_steps := Some (int (length (steps tr))),
                           total_duration_ms := Some (total_duration (map d_duration_ms (steps tr)))\<rparr>;
                  self' = s\<lparr>traces := (traces s)(tid \<mapsto> tr')\<rparr>
              in (Inr (Some tid), self'\<lparr>current_trace_id := None, current_step := None\<rparr>,
                  save_to_file self' tid write_ok files))"
  using assms by (auto simp: end_trace_def active_id_eq active_in_table_def Let_def split: option.splits)

lemma end_trace_idle:
  "current_trace_id s = None \<Longrightarrow> end_trace s now write_ok files = (Inr None, s, files)"
  by (simp add: end_trace_def active_id_def)

lemma finally_appends:
  assumes "active_in_table s" and "current_trace_id s = Some tid" and "current_step s = Some st"
  shows "\<exists>tr. traces s tid = Some tr \<and>
           wrapper_finally s r clock =
             (r, s\<lparr>traces := (traces s)(tid \<mapsto> tr\<lparr>steps := steps tr @ [to_dict (XRayStep_end st clock)]\<rparr>),
                   current_step := None\<rparr>)"
  using assms by (auto simp: wrapper_finally_def active_id_eq active_in_table_def Let_def split: option.splits)


lemma s_started_eq:
  "s_started = \<lparr> current_trace_id = Some ''trace_1700000000_abcdef01'',
                 traces = [''trace_1700000000_abcdef01'' \<mapsto>
                    \<lparr> trace_id = ''trace_1700000000_abcdef01'', trace_name = ''demo'',
                      start_time = ''2024-01-01T10:00:00'', steps = [],
                      end_time = None, total_steps = None, total_duration_ms = None \<rparr>],
                 current_step = None \<rparr>"
  by (simp add: s_started_def start_trace_def XRay_init_def Let_def str_int_def int_of_float_def)

lemma reachable_s_started: "reachable s_started"
  unfolding s_started_def by (intro reachable.intros)

lemma reachable_s_open: "reachable s_open"
  unfolding s_open_def by (intro reachable.intros reachable_s_started)

text \<open>
  Every instrumented call as a whole stays within the reachable states, whatever its
  wrapped function does with the tracer, as long as that stays within them.
\<close>

lemma wrapper_reachable:
  assumes "reachable s" and "\<And>s'. reachable s' \<Longrightarrow> reachable (snd (func args kwargs s'))"
  shows "reachable (snd (wrapper s name stype func args kwargs env))"
proof (cases "wrapper_enter s name stype args kwargs env")
  case (Pair r1 s1)
  have r1: "reachable s1"
    using reachable.enter[OF assms(1), of name stype args kwargs env] Pair by simp
  show ?thesis
  proof (cases r1)
    case (Inl e)
    then show ?thesis using Pair r1 by (simp add: wrapper_def)
  next
    case (Inr u)
    obtain r s2 where f: "func args kwargs s1 = (r, s2)" by (cases "func args kwargs s1")
    have "reachable s2" using assms(2)[OF r1] f by simp
    then have "reachable (snd (wrapper_exit s2 r (env_clock_end env)))" by (rule reachable.leave)
    then show ?thesis using Pair Inr f by (simp add: wrapper_def)
  qed
qed

text \<open>
  Claim C10. In every state reachable from the initial one by \<^verbatim>\<open>start_trace\<close>,
  instrumented calls, \<^verbatim>\<open>add_reasoning\<close> and \<^verbatim>\<open>end_trace\<close>,
  \<^verbatim>\<open>current_trace_id\<close> is \<^verbatim>\<open>None\<close> or a key of \<^verbatim>\<open>traces\<close>. So
  \<^verbatim>\<open>add_reasoning\<close> never raises; \<^verbatim>\<open>end_trace\<close> never raises, returns
  \<^verbatim>\<open>None\<close> without an active trace and the active id otherwise, after which the
  active slot is empty and the finalized trace is still in the table; and the
  \<^verbatim>\<open>finally\<close> block of the wrapper, run on an open step while a trace is active,
  finds that trace and appends the step to it.
\<close>

theorem reachable_active_trace_in_table:
  assumes "reachable s"
  shows "fst (add_reasoning s reasoning) = Inr () \<and>
         (case current_trace_id s of
            None \<Rightarrow> fst (end_trace s now write_ok files) = Inr None
          | Some tid \<Rightarrow>
              tid \<in> dom (traces s) \<and>
              fst (end_trace s now write_ok files) = Inr (Some tid) \<and>
              current_trace_id (fst (snd (end_trace s now write_ok files))) = None \<and>
              tid \<in> dom (traces (fst (snd (end_trace s now write_ok files)))) \<and>
              (case current_step s of
                 None \<Rightarrow> True
               | Some st \<Rightarrow>
                   map_option steps (traces (snd (wrapper_finally s r clock)) tid) =
                   map_option (\<lambda>tr. steps tr @ [to_dict (XRayStep_end st clock)]) (traces s tid)))"
proof -
  have inv: "active_in_table s" using assms by (rule reachable_inv)
  have a: "fst (add_reasoning s reasoning) = Inr ()" using inv by (rule add_reasoning_no_error)
  have b: ?thesis if none: "current_trace_id s = None"
    using a none by (simp add: end_trace_idle)
  have c: ?thesis if some: "current_trace_id s = Some tid" for tid
  proof -
    obtain tr where tr: "traces s tid = Some tr"
      and e: "end_trace s now write_ok files =
             (let tr' = tr\<lparr>end_time := Some now,
                           total_steps := Some (int (length (steps tr))),
                           total_duration_ms := Some (total_duration (map d_duration_ms (steps tr)))\<rparr>;
                  self' = s\<lparr>traces := (traces s)(tid \<mapsto> tr')\<rparr>
              in (Inr (Some tid), self'\<lparr>current_trace_id := None, current_step := None\<rparr>,
                  save_to_file self' tid write_ok files))"
      using end_trace_active[OF inv some] by blast
    have f: "map_option steps (traces (snd (wrapper_finally s r clock)) tid) =
             map_option (\<lambda>tr. steps tr @ [to_dict (XRayStep_end st clock)]) (traces s tid)"
      if "current_step s = Some st" for st
      using finally_appends[OF inv some that, of r clock] tr by auto
    show ?thesis using a some tr e f by (auto simp: Let_def split: option.splits)
  qed
  show ?thesis using b c by (cases "current_trace_id s") auto
qed

theorem reachable_active_trace_in_table_witness:
  "reachable s_open \<and>
   current_trace_id s_open = Some ''trace_1700000000_abcdef01'' \<and>
   ''trace_1700000000_abcdef01'' \<in> dom (traces s_open) \<and>
   fst (add_reasoning s_open ''why'') = Inr () \<and>
   fst (end_trace s_open ''2024-01-01T10:00:09'' True []) = Inr (Some ''trace_1700000000_abcdef01'') \<and>
   current_trace_id (fst (snd (end_trace s_open ''2024-01-01T10:00:09'' True []))) = None \<and>
   ''trace_1700000000_abcdef01'' \<in> dom (traces (fst (snd (end_trace s_open ''2024-01-01T10:00:09'' True []))))"
proof -
  have c: "current_trace_id s_open = Some ''trace_1700000000_abcdef01''"
    by (simp add: s_open_def s_started_eq wrapper_enter_def capture_input_def Let_def)
  show ?thesis
    using reachable_active_trace_in_table[OF reachable_s_open, of "''why''" "''2024-01-01T10:00:09''" True "[]"]
      reachable_s_open c
    by (simp split: option.splits)
qed

section \<open>Finalizing a trace\<close>


lemma py_round2_zero: "py_round2 0 = 0"
  by (simp add: py_round2_def round_half_even_def)

lemma num_value_total_duration:
  "num_value (total_duration ds) = Some (py_round2 (sum_list ds))"
  by (simp add: total_duration_def py_round2_zero)

lemma map_of_dict_set: "map_of (dict_set k v xs) k = Some v"
  by (induction xs) auto

lemma map_of_dict_set_other: "k' \<noteq> k \<Longrightarrow> map_of (dict_set k v xs) k' = map_of xs k'"
  by (induction xs) auto

lemma step_json_duration: "subscript (step_json d) ''duration_ms'' = Some (JFloat (d_duration_ms d))"
  by (simp add: subscript_def step_json_def split: option.splits)

lemma trace_json_steps: "subscript (trace_json tr) ''steps'' = Some (JArr (map step_json (steps tr)))"
  by (simp add: subscript_def trace_json_def split: option.splits)

lemma trace_json_total_steps:
  "total_steps tr = Some n \<Longrightarrow> subscript (trace_json tr) ''total_steps'' = Some (JInt n)"
  by (simp add: subscript_def trace_json_def split: option.splits)

lemma trace_json_total_duration:
  "total_duration_ms tr = Some x \<Longrightarrow> subscript (trace_json tr) ''total_duration_ms'' = Some x"
  by (simp add: subscript_def trace_json_def split: option.splits)

lemma reachable_returns_42: "reachable s \<Longrightarrow> reachable (snd (returns_42 args kwargs s))"
  by (simp add: returns_42_def)

lemma reachable_s_one_step: "reachable s_one_step"
  unfolding s_one_step_def by (rule wrapper_reachable[OF reachable_s_started reachable_returns_42])

lemma s_one_step_eq:
  "s_one_step = \<lparr> current_trace_id = Some ''trace_1700000000_abcdef01'',
                 traces = [''trace_1700000000_abcdef01'' \<mapsto>
                    \<lparr> trace_id = ''trace_1700000000_abcdef01'', trace_name = ''demo'',
                      start_time = ''2024-01-01T10:00:00'',
                      steps = [\<lparr> d_id = ''1b4e28ba'', d_name = ''Step A'', d_step_type = ''x'',
                                 d_input = [], d_output = [(''result'', JInt 42)],
                                 d_reasoning = Some [], d_timestamp = ''2024-01-01T10:00:01'',
                                 d_duration_ms = 500, d_success = True, d_error = None \<rparr>],
                      end_time = None, total_steps = None, total_duration_ms = None \<rparr>],
                 current_step = None \<rparr>"
  by (simp add: s_one_step_def s_started_eq wrapper_def wrapper_enter_def capture_input_def Let_def
      returns_42_def wrapper_exit_def wrapper_try_def wrapper_finally_def active_id_def
      XRayStep_init_def XRayStep_end_def to_dict_def env_A_def py_round2_def round_half_even_def)

text \<open>
  Claim C5. Whenever a trace is active, in any reachable state, \<^verbatim>\<open>end_trace\<close>
  returns its id, stamps \<^verbatim>\<open>end_time\<close>, leaves the recorded steps as they are,
  clears the active-trace and the open-step slot, and hands the finalized trace to the
  file \<^verbatim>\<open>trace_<id>.json\<close> (written when the write succeeds; a failed write is
  reported on the console only). In the finalized trace, and so in the record written,
  \<^verbatim>\<open>total_steps\<close> is the number of step entries and \<^verbatim>\<open>total_duration_ms\<close>
  is the sum of the entries' \<^verbatim>\<open>duration_ms\<close> rounded to two decimal places.
\<close>

theorem end_trace_totals:
  assumes "reachable s" and "current_trace_id s = Some tid"
  shows "\<exists>tr'.
     end_trace s now write_ok files =
       (Inr (Some tid),
        s\<lparr>traces := (traces s)(tid \<mapsto> tr'), current_trace_id := None, current_step := None\<rparr>,
        if write_ok then dict_set (''trace_'' @ tid @ ''.json'') (Json_text (trace_json tr')) files else files) \<and>
     map_option steps (traces s tid) = Some (steps tr') \<and>
     end_time tr' = Some now \<and>
     total_steps tr' = Some (int (length (steps tr'))) \<and>
     Option.bind (total_duration_ms tr') num_value = Some (py_round2 (sum_list (map d_duration_ms (steps tr')))) \<and>
     subscript (trace_json tr') ''steps'' = Some (JArr (map step_json (steps tr'))) \<and>
     subscript (trace_json tr') ''total_steps'' = Some (JInt (int (length (map step_json (steps tr'))))) \<and>
     Option.bind (subscript (trace_json tr') ''total_duration_ms'') num_value =
       Some (py_round2 (sum_list (map d_duration_ms (steps tr')))) \<and>
     map (\<lambda>j. subscript j ''duration_ms'') (map step_json (steps tr')) =
       map (\<lambda>d. Some (JFloat (d_duration_ms d))) (steps tr')"
proof -
  have inv: "active_in_table s" using assms(1) by (rule reachable_inv)
  obtain tr where tr: "traces s tid = Some tr"
    and e: "end_trace s now write_ok files =
             (let tr' = tr\<lparr>end_time := Some now,
                           total_steps := Some (int (length (steps tr))),
                           total_duration_ms := Some (total_duration (map d_duration_ms (steps tr)))\<rparr>;
                  self' = s\<lparr>traces := (traces s)(tid \<mapsto> tr')\<rparr>
              in (Inr (Some tid), self'\<lparr>current_trace_id := None, current_step := None\<rparr>,
                  save_to_file self' tid write_ok files))"
    using end_trace_active[OF inv assms(2)] by blast
  define tr' where "tr' = tr\<lparr>end_time := Some now,
                           total_steps := Some (int (length (steps tr))),
                           total_duration_ms := Some (total_duration (map d_duration_ms (steps tr)))\<rparr>"
  have 1: "end_trace s now write_ok files =
       (Inr (Some tid),
        s\<lparr>traces := (traces s)(tid \<mapsto> tr'), current_trace_id := None, current_step := None\<rparr>,
        if write_ok then dict_set (''trace_'' @ tid @ ''.json'') (Json_text (trace_json tr')) files else files)"
    using e by (simp add: Let_def tr'_def save_to_file_def)
  have 2: "map_option steps (traces s tid) = Some (steps tr')" by (simp add: tr tr'_def)
  have 3: "end_time tr' = Some now" by (simp add: tr'_def)
  have 4: "total_steps tr' = Some (int (length (steps tr')))" by (simp add: tr'_def)
  have 5: "total_duration_ms tr' = Some (total_duration (map d_duration_ms (steps tr')))"
    by (simp add: tr'_def)
  have 6: "Option.bind (total_duration_ms tr') num_value = Some (py_round2 (sum_list (map d_duration_ms (steps tr'))))"
    by (simp add: 5 num_value_total_duration)
  have 7: "subscript (trace_json tr') ''total_steps'' = Some (JInt (int (length (map step_json (steps tr')))))"
    using trace_json_total_steps[OF 4] by simp
  have 8: "Option.bind (subscript (trace_json tr') ''total_duration_ms'') num_value =
       Some (py_round2 (sum_list (map d_duration_ms (steps tr'))))"
    using trace_json_total_duration[OF 5] by (simp add: num_value_total_duration)
  have 9: "map (\<lambda>j. subscript j ''duration_ms'') (map step_json (steps tr')) =
       map (\<lambda>d. Some (JFloat (d_duration_ms d))) (steps tr')"
    by (simp add: step_json_duration)
  show ?thesis
    using 1 2 3 4 6 7 8 9 trace_json_steps[of tr'] by blast
qed

theorem end_trace_totals_witness:
  "reachable s_one_step \<and> current_trace_id s_one_step = Some ''trace_1700000000_abcdef01'' \<and>
   fst (end_trace s_one_step ''2024-01-01T10:00:09'' True []) = Inr (Some ''trace_1700000000_abcdef01'') \<and>
   (\<exists>tr'. snd (snd (end_trace s_one_step ''2024-01-01T10:00:09'' True [])) =
             [(''trace_trace_1700000000_abcdef01.json'', Json_text (trace_json tr'))] \<and>
          subscript (trace_json tr') ''total_steps'' = Some (JInt 1) \<and>
          Option.bind (subscript (trace_json tr') ''total_duration_ms'') num_value = Some 500)"
proof -
  have c: "current_trace_id s_one_step = Some ''trace_1700000000_abcdef01''"
    by (simp add: s_one_step_eq)
  obtain tr' where
    e: "end_trace s_one_step ''2024-01-01T10:00:09'' True [] =
       (Inr (Some ''trace_1700000000_abcdef01''),
        s_one_step\<lparr>traces := (traces s_one_step)(''trace_1700000000_abcdef01'' \<mapsto> tr'), current_trace_id := None, current_step := None\<rparr>,
        if True then dict_set (''trace_'' @ ''trace_1700000000_abcdef01'' @ ''.json'') (Json_text (trace_json tr')) [] else [])"
    and st: "map_option steps (traces s_one_step ''trace_1700000000_abcdef01'') = Some (steps tr')"
    and n: "subscript (trace_json tr') ''total_steps'' = Some (JInt (int (length (map step_json (steps tr')))))"
    and d: "Option.bind (subscript (trace_json tr') ''total_duration_ms'') num_value =
       Some (py_round2 (sum_list (map d_duration_ms (steps tr'))))"
    using end_trace_totals[OF reachable_s_one_step c, of "''2024-01-01T10:00:09''" True "[]"] by blast
  have steps: "steps tr' = [\<lparr> d_id = ''1b4e28ba'', d_name = ''Step A'', d_step_type = ''x'',
                                 d_input = [], d_output = [(''result'', JInt 42)],
                                 d_reasoning = Some [], d_timestamp = ''2024-01-01T10:00:01'',
                                 d_duration_ms = 500, d_success = True, d_error = None \<rparr>]"
    using st by (simp add: s_one_step_eq)
  have r: "py_round2 500 = 500" by (simp add: py_round2_def round_half_even_def)
  show ?thesis
    using reachable_s_one_step c e n d by (auto simp: steps r)
qed

section \<open>Attaching reasoning\<close>

lemma s_open_eq:
  "s_open = s_started\<lparr>current_step := Some (XRayStep_init ''Step A'' ''x'' env_A)\<rparr>"
  by (simp add: s_open_def wrapper_enter_def capture_input_def Let_def XRayStep_init_def)

lemma enter_s_started:
  "wrapper_enter s_started ''Step A'' ''x'' [] [] env_A = (Inr (), s_open)"
  by (simp add: s_open_def wrapper_enter_def capture_input_def Let_def)

text \<open>
  Claim C1, which says that two calls of \<^verbatim>\<open>add_reasoning\<close> during one open step
  leave both texts in the step's reasoning, in call order, joined by a line break. The
  code does not: \<^verbatim>\<open>XRayStep.add_reasoning\<close> assigns, so after the calls with
  \<open>t1\<close> and then \<open>t2\<close> the open step's reasoning is \<open>t2\<close> alone, whatever the
  step and the texts. In the example the reasoning after \<^verbatim>\<open>"first"\<close> and
  \<^verbatim>\<open>"second"\<close> is \<^verbatim>\<open>"second"\<close>.
\<close>

theorem add_reasoning_open_step_overwrites:
  "current_step (snd (add_reasoning (snd (add_reasoning (s\<lparr>current_step := Some st\<rparr>) t1)) t2))
     = Some (st\<lparr>step_reasoning := t2\<rparr>) \<and>
   map_option step_reasoning
     (current_step (snd (add_reasoning (snd (add_reasoning s_open ''first'')) ''second'')))
     = Some ''second''"
  by (simp add: add_reasoning_def XRayStep_add_reasoning_def s_open_eq)

text \<open>
  Claim C7, which says that without an open step \<^verbatim>\<open>add_reasoning\<close> appends the
  text to the most recently closed step, with a newline between only if that step
  already has reasoning. The code tests whether the step's dict has the key
  \<^verbatim>\<open>"reasoning"\<close>, which \<^verbatim>\<open>to_dict\<close> always writes: after one instrumented call
  that attached no reasoning (the recorded reasoning is empty), \<^verbatim>\<open>add_reasoning("why")\<close>
  leaves a newline followed by \<^verbatim>\<open>why\<close>.
\<close>

theorem add_reasoning_closed_step_leading_newline:
  "map_option (\<lambda>tr. map d_reasoning (steps tr)) (traces s_one_step ''trace_1700000000_abcdef01'')
     = Some [Some []] \<and>
   current_step s_one_step = None \<and>
   map_option (\<lambda>tr. map d_reasoning (steps tr))
     (traces (snd (add_reasoning s_one_step ''why'')) ''trace_1700000000_abcdef01'')
     = Some [Some (CHR 0x0A # ''why'')]"
  by (simp add: s_one_step_eq add_reasoning_def active_id_def Let_def)

section \<open>Capturing the input of a call\<close>

text \<open>
  Claim C3, which says that only a genuine receiver is left out of the recorded input
  and that a first positional argument that is an ordinary value is recorded as itself.
  The code takes the first positional argument for the receiver whenever there is one:
  for the call \<^verbatim>\<open>f(5)\<close> of a plain function the recorded input is
  \<^verbatim>\<open>{"self": "int object"}\<close>, with no entry \<^verbatim>\<open>arg_0\<close>, and for
  \<^verbatim>\<open>f("bottle", 10, limit=3)\<close> the string is not recorded.
\<close>

theorem capture_input_first_positional_dropped:
  "capture_input [PInt 5] [] = Inr [(''self'', JStr ''int object'')] \<and>
   capture_input [PStr ''bottle'', PInt 10] [(''limit'', PInt 3)] =
     Inr [(''self'', JStr ''str object''), (''arg_1'', JInt 10), (''limit'', JInt 3)]"
  by (simp add: capture_input_def has_class_attr_def str_int_def)

section \<open>The sanitizer\<close>

text \<open>
  Claim C6, which says that the sanitizer never throws. In the dict branch
  \<^verbatim>\<open>str(k)\<close> stands outside any \<^verbatim>\<open>try\<close>: on a dict with one key whose
  \<^verbatim>\<open>__str__\<close> raises \<^verbatim>\<open>ValueError("bad key")\<close> the sanitizer raises that error.
\<close>

theorem make_json_safe_raises_on_key:
  "make_json_safe (PDict [(Inl (Exn True ''ValueError'' ''bad key''), PInt 1)])
     = Inl (Exn True ''ValueError'' ''bad key'')"
  by simp

section \<open>The wrapper\<close>

lemma inner_on_open:
  "calls_inner [] [] (s_started\<lparr>current_step := Some st\<rparr>) =
     (Inr (PInt 42),
      s_started\<lparr>traces := (traces s_started)(''trace_1700000000_abcdef01'' \<mapsto>
                    \<lparr> trace_id = ''trace_1700000000_abcdef01'', trace_name = ''demo'',
                      start_time = ''2024-01-01T10:00:00'',
                      steps = [\<lparr> d_id = ''6fa459ea'', d_name = ''inner'', d_step_type = ''x'',
                                 d_input = [], d_output = [(''result'', JInt 42)],
                                 d_reasoning = Some [], d_timestamp = ''2024-01-01T10:00:02'',
                                 d_duration_ms = 250, d_success = True, d_error = None \<rparr>],
                      end_time = None, total_steps = None, total_duration_ms = None \<rparr>),
                current_step := None\<rparr>)"
  by (simp add: calls_inner_def s_started_eq wrapper_def wrapper_enter_def capture_input_def Let_def
      returns_42_def wrapper_exit_def wrapper_try_def wrapper_finally_def active_id_def
      XRayStep_init_def XRayStep_end_def to_dict_def env_B_def py_round2_def round_half_even_def)

lemma wrapper_on_started:
  "wrapper s_started ''Step A'' ''x'' func [] [] env_A =
     (let (r, s2) = func [] [] s_open in wrapper_exit s2 r (env_clock_end env_A))"
  by (simp add: wrapper_def enter_s_started)

text \<open>
  Claim C2 as stated, at three instrumented calls. First a nested one: \<^verbatim>\<open>outer\<close>
  returns what the instrumented \<^verbatim>\<open>inner\<close> returns; run in the state the outer
  wrapper hands it, its body returns 42, and the caller gets an \<^verbatim>\<open>AttributeError\<close>
  raised by the wrapper itself, since the inner wrapper has set
  \<^verbatim>\<open>self._current_step\<close> to \<^verbatim>\<open>None\<close>. Second, a function that returns a dict
  the sanitizer raises on: the caller gets the sanitizer's \<^verbatim>\<open>ValueError\<close>, not the
  dict. Third, a function that raises an exception whose \<^verbatim>\<open>__str__\<close> raises: the
  caller gets the \<^verbatim>\<open>RuntimeError\<close> of \<^verbatim>\<open>str(e)\<close>, not the exception raised.
\<close>

theorem wrapper_not_transparent_counterexample:
  "fst (calls_inner [] [] (snd (wrapper_enter s_started ''outer'' ''x'' [] [] env_A))) = Inr (PInt 42) \<and>
   fst (wrapper s_started ''outer'' ''x'' calls_inner [] [] env_A) = Inl (AttributeError ''end'') \<and>
   fst (returns_bad_key_dict [] [] s_open) = Inr bad_key_dict \<and>
   fst (wrapper s_started ''Step A'' ''x'' returns_bad_key_dict [] [] env_A) = Inl (Exn True ''ValueError'' ''bad key'') \<and>
   fst (raises_unprintable [] [] s_open) = Inl unprintable \<and>
   fst (wrapper s_started ''Step A'' ''x'' raises_unprintable [] [] env_A) = Inl (Exn True ''RuntimeError'' ''no message'') \<and>
   unprintable \<noteq> Exn True ''RuntimeError'' ''no message''"
proof -
  have 1: "fst (calls_inner [] [] (snd (wrapper_enter s_started ''outer'' ''x'' [] [] env_A))) = Inr (PInt 42) \<and>
           fst (wrapper s_started ''outer'' ''x'' calls_inner [] [] env_A) = Inl (AttributeError ''end'')"
    by (simp add: wrapper_def wrapper_enter_def capture_input_def Let_def inner_on_open
        wrapper_exit_def wrapper_try_def wrapper_except_def wrapper_finally_def AttributeError_def)
  have 2: "fst (returns_bad_key_dict [] [] s_open) = Inr bad_key_dict \<and>
           fst (wrapper s_started ''Step A'' ''x'' returns_bad_key_dict [] [] env_A) = Inl (Exn True ''ValueError'' ''bad key'')"
    by (simp add: wrapper_on_started returns_bad_key_dict_def bad_key_dict_def wrapper_exit_def
        wrapper_try_def wrapper_except_def wrapper_finally_def s_open_eq Let_def)
  have 3: "fst (raises_unprintable [] [] s_open) = Inl unprintable \<and>
           fst (wrapper s_started ''Step A'' ''x'' raises_unprintable [] [] env_A) = Inl (Exn True ''RuntimeError'' ''no message'') \<and>
           unprintable \<noteq> Exn True ''RuntimeError'' ''no message''"
    by (simp add: wrapper_on_started raises_unprintable_def unprintable_def wrapper_exit_def
        wrapper_try_def wrapper_except_def wrapper_finally_def s_open_eq Let_def)
  show ?thesis using 1 2 3 by (intro conjI) (erule conjunct1 conjunct2 | drule conjunct2)+
qed

text \<open>
  Claim C2, amended. For every instrumented call whose arguments sanitize without an
  error and whose wrapped function leaves a step in the tracer's open-step slot (it
  has not completed another instrumented call or \<^verbatim>\<open>end_trace\<close>): if the function
  returns a value that sanitizes without an error, the caller gets exactly that value;
  if it raises an exception, the caller gets exactly that exception, provided
  \<^verbatim>\<open>str(e)\<close> returns where the exception is an \<^verbatim>\<open>Exception\<close>.
\<close>

theorem wrapper_transparent:
  assumes enter: "wrapper_enter self name stype args kwargs env = (Inr (), s1)"
      and body: "func args kwargs s1 = (r, s2)"
      and slot: "current_step s2 \<noteq> None"
      and safe: "case r of
                   Inl e \<Rightarrow> is_Exception e \<longrightarrow> \<not> isl (str_exn e)
                 | Inr v \<Rightarrow> \<not> isl (make_json_safe v)"
  shows "fst (wrapper self name stype func args kwargs env) = r"
proof -
  obtain st where st: "current_step s2 = Some st" using slot by auto
  have t: "fst (wrapper_try s2 r) = r \<and> current_step (snd (wrapper_try s2 r)) \<noteq> None"
  proof (cases r)
    case (Inl e)
    show ?thesis
    proof (cases "is_Exception e")
      case True
      then obtain msg where "str_exn e = Inr msg" using safe Inl by (cases "str_exn e") auto
      then show ?thesis using Inl True by (simp add: wrapper_try_def wrapper_except_def st)
    next
      case False
      then show ?thesis using Inl by (simp add: wrapper_try_def wrapper_except_def st)
    qed
  next
    case (Inr v)
    then obtain j where "make_json_safe v = Inr j" using safe by (cases "make_json_safe v") auto
    then show ?thesis using Inr by (simp add: wrapper_try_def st)
  qed
  have f: "fst (wrapper_finally s r' clock) = r'" if "current_step s \<noteq> None" for s r' clock
    using that by (auto simp: wrapper_finally_def Let_def)
  have "fst (wrapper_exit s2 r (env_clock_end env)) = r"
    using t f[of "snd (wrapper_try s2 r)" "fst (wrapper_try s2 r)"]
    by (simp add: wrapper_exit_def split_beta)
  then show ?thesis by (simp add: wrapper_def enter body)
qed

theorem wrapper_transparent_witness:
  "wrapper_enter s_started ''Step A'' ''x'' [] [] env_A = (Inr (), s_open) \<and>
   current_step s_open \<noteq> None \<and>
   returns_42 [] [] s_open = (Inr (PInt 42), s_open) \<and>
   \<not> isl (make_json_safe (PInt 42)) \<and>
   fst (wrapper s_started ''Step A'' ''x'' returns_42 [] [] env_A) = Inr (PInt 42) \<and>
   raises_boom [] [] s_open = (Inl boom, s_open) \<and>
   is_Exception boom \<and> \<not> isl (str_exn boom) \<and>
   fst (wrapper s_started ''Step A'' ''x'' raises_boom [] [] env_A) = Inl boom"
proof -
  have b: "returns_42 [] [] s_open = (Inr (PInt 42), s_open)" by (simp add: returns_42_def)
  have b': "raises_boom [] [] s_open = (Inl boom, s_open)" by (simp add: raises_boom_def)
  have sl: "current_step s_open \<noteq> None" by (simp add: s_open_eq)
  have x: "is_Exception boom" and p: "\<not> isl (str_exn boom)" by (simp_all add: boom_def)
  have sf: "case Inr (PInt 42) :: exn + pyval of
              Inl e \<Rightarrow> is_Exception e \<longrightarrow> \<not> isl (str_exn e)
            | Inr v \<Rightarrow> \<not> isl (make_json_safe v)" by simp
  have sf': "case Inl boom :: exn + pyval of
              Inl e \<Rightarrow> is_Exception e \<longrightarrow> \<not> isl (str_exn e)
            | Inr v \<Rightarrow> \<not> isl (make_json_safe v)" using p by simp
  have m: "\<not> isl (make_json_safe (PInt 42))" by simp
  note r1 = wrapper_transparent[where func = returns_42, OF enter_s_started b sl sf]
  note r2 = wrapper_transparent[where func = raises_boom, OF enter_s_started b' sl sf']
  show ?thesis
    by (intro conjI) (rule enter_s_started sl b m r1 b' x p r2)+
qed

text \<open>
  Claim C4 as stated, at three wrapped functions that raise. \<^verbatim>\<open>outer_failing\<close>
  calls the instrumented \<^verbatim>\<open>inner\<close> and then raises \<^verbatim>\<open>ValueError("boom")\<close>: the
  caller gets the wrapper's \<^verbatim>\<open>AttributeError\<close> instead, and the trace holds the
  step of \<^verbatim>\<open>inner\<close> only. A function raising an \<^verbatim>\<open>Exception\<close> whose
  \<^verbatim>\<open>__str__\<close> raises: the caller gets the error of \<^verbatim>\<open>str(e)\<close>, and the step
  recorded has \<^verbatim>\<open>success\<close> false but no \<^verbatim>\<open>error\<close>. A function raising
  \<^verbatim>\<open>KeyboardInterrupt\<close>, which is no \<^verbatim>\<open>Exception\<close>: it reaches the caller, and
  the step recorded has \<^verbatim>\<open>success\<close> true.
\<close>

theorem failure_not_recorded_counterexample:
  "fst (calls_inner_then_raises [] [] (snd (wrapper_enter s_started ''outer'' ''x'' [] [] env_A))) = Inl boom \<and>
   fst (wrapper s_started ''outer'' ''x'' calls_inner_then_raises [] [] env_A) = Inl (AttributeError ''end'') \<and>
   AttributeError ''end'' \<noteq> boom \<and>
   map_option (\<lambda>tr. map d_name (steps tr))
     (traces (snd (wrapper s_started ''outer'' ''x'' calls_inner_then_raises [] [] env_A)) ''trace_1700000000_abcdef01'')
     = Some [''inner''] \<and>
   fst (raises_unprintable [] [] s_open) = Inl unprintable \<and>
   is_Exception unprintable \<and>
   fst (wrapper s_started ''Step A'' ''x'' raises_unprintable [] [] env_A) = Inl (Exn True ''RuntimeError'' ''no message'') \<and>
   map_option (\<lambda>tr. map (\<lambda>d. (d_success d, d_error d)) (steps tr))
     (traces (snd (wrapper s_started ''Step A'' ''x'' raises_unprintable [] [] env_A)) ''trace_1700000000_abcdef01'')
     = Some [(False, None)] \<and>
   fst (raises_interrupt [] [] s_open) = Inl interrupt \<and>
   fst (wrapper s_started ''Step A'' ''x'' raises_interrupt [] [] env_A) = Inl interrupt \<and>
   map_option (\<lambda>tr. map (\<lambda>d. (d_success d, d_error d)) (steps tr))
     (traces (snd (wrapper s_started ''Step A'' ''x'' raises_interrupt [] [] env_A)) ''trace_1700000000_abcdef01'')
     = Some [(True, None)]"
proof -
  have 1: "fst (calls_inner_then_raises [] [] (snd (wrapper_enter s_started ''outer'' ''x'' [] [] env_A))) = Inl boom \<and>
   fst (wrapper s_started ''outer'' ''x'' calls_inner_then_raises [] [] env_A) = Inl (AttributeError ''end'') \<and>
   AttributeError ''end'' \<noteq> boom \<and>
   map_option (\<lambda>tr. map d_name (steps tr))
     (traces (snd (wrapper s_started ''outer'' ''x'' calls_inner_then_raises [] [] env_A)) ''trace_1700000000_abcdef01'')
     = Some [''inner'']"
    using inner_on_open[of "XRayStep_init ''outer'' ''x'' env_A"]
    by (simp add: wrapper_def wrapper_enter_def capture_input_def Let_def calls_inner_then_raises_def calls_inner_def
        wrapper_exit_def wrapper_try_def wrapper_except_def wrapper_finally_def AttributeError_def boom_def)
  have 2: "fst (raises_unprintable [] [] s_open) = Inl unprintable \<and>
   is_Exception unprintable \<and>
   fst (wrapper s_started ''Step A'' ''x'' raises_unprintable [] [] env_A) = Inl (Exn True ''RuntimeError'' ''no message'') \<and>
   map_option (\<lambda>tr. map (\<lambda>d. (d_success d, d_error d)) (steps tr))
     (traces (snd (wrapper s_started ''Step A'' ''x'' raises_unprintable [] [] env_A)) ''trace_1700000000_abcdef01'')
     = Some [(False, None)]"
    unfolding wrapper_on_started
    by (simp add: raises_unprintable_def unprintable_def wrapper_exit_def
        wrapper_try_def wrapper_except_def wrapper_finally_def s_open_eq s_started_eq Let_def
        active_id_def to_dict_def XRayStep_init_def XRayStep_end_def)
  have 3: "fst (raises_interrupt [] [] s_open) = Inl interrupt \<and>
   fst (wrapper s_started ''Step A'' ''x'' raises_interrupt [] [] env_A) = Inl interrupt \<and>
   map_option (\<lambda>tr. map (\<lambda>d. (d_success d, d_error d)) (steps tr))
     (traces (snd (wrapper s_started ''Step A'' ''x'' raises_interrupt [] [] env_A)) ''trace_1700000000_abcdef01'')
     = Some [(True, None)]"
    unfolding wrapper_on_started
    by (simp add: raises_interrupt_def interrupt_def wrapper_exit_def
        wrapper_try_def wrapper_except_def wrapper_finally_def s_open_eq s_started_eq Let_def
        active_id_def to_dict_def XRayStep_init_def XRayStep_end_def)
  show ?thesis using 1 2 3 by (intro conjI) (erule conjunct1 conjunct2 | drule conjunct2)+
qed

text \<open>
  Claim C4, amended. For every instrumented call whose wrapped function raises an
  error \<open>e\<close>, an instance of \<^verbatim>\<open>Exception\<close> with \<^verbatim>\<open>str(e)\<close> returning the
  message, and has left in the open-step slot the step the wrapper opened, at most
  with reasoning attached: the same error is raised to the caller, the slot is
  cleared, and, if a trace is active, exactly one step is appended to it, with
  \<^verbatim>\<open>success\<close> false, \<^verbatim>\<open>error\<close> the message, the \<^verbatim>\<open>output\<close> mapping empty,
  and the name, kind, sanitized input and reasoning of the call. Without an active
  trace nothing is recorded.
\<close>

theorem wrapper_records_failure:
  assumes enter: "wrapper_enter self name stype args kwargs env = (Inr (), s1)"
      and body: "func args kwargs s1 = (Inl e, s2)"
      and exc: "is_Exception e"
      and msg: "str_exn e = Inr msg"
      and slot: "current_step s2 = map_option (\<lambda>st. st\<lparr>step_reasoning := rsn\<rparr>) (current_step s1)"
  shows "\<exists>d. wrapper self name stype func args kwargs env =
            (Inl e,
             (case active_id s2 of
                None \<Rightarrow> s2
              | Some tid \<Rightarrow>
                  (case traces s2 tid of
                     None \<Rightarrow> s2
                   | Some tr \<Rightarrow> s2\<lparr>traces := (traces s2)(tid \<mapsto> tr\<lparr>steps := steps tr @ [d]\<rparr>)\<rparr>))
             \<lparr>current_step := None\<rparr>) \<and>
          d_name d = name \<and> d_step_type d = stype \<and>
          d_success d = False \<and> d_error d = Some msg \<and> d_output d = [] \<and>
          d_reasoning d = Some rsn \<and> Inr (d_input d) = capture_input args kwargs"
proof -
  obtain inp where inp: "capture_input args kwargs = Inr inp"
    and s1: "s1 = self\<lparr>current_step := Some ((XRayStep_init name stype env)\<lparr>step_input := inp\<rparr>)\<rparr>"
    using enter by (auto simp: wrapper_enter_def Let_def split: sum.splits)
  define st where "st = (XRayStep_init name stype env)\<lparr>step_input := inp, step_reasoning := rsn\<rparr>"
  have cs: "current_step s2 = Some st" using slot by (simp add: s1 st_def)
  define d where "d = to_dict (XRayStep_end (st\<lparr>step_success := False, step_error := Some msg\<rparr>) (env_clock_end env))"
  have t: "wrapper_try s2 (Inl e) =
       (Inl e, s2\<lparr>current_step := Some (st\<lparr>step_success := False, step_error := Some msg\<rparr>)\<rparr>)"
    using exc cs msg by (simp add: wrapper_try_def wrapper_except_def)
  have w: "wrapper self name stype func args kwargs env =
            (Inl e,
             (case active_id s2 of
                None \<Rightarrow> s2
              | Some tid \<Rightarrow>
                  (case traces s2 tid of
                     None \<Rightarrow> s2
                   | Some tr \<Rightarrow> s2\<lparr>traces := (traces s2)(tid \<mapsto> tr\<lparr>steps := steps tr @ [d]\<rparr>)\<rparr>))
             \<lparr>current_step := None\<rparr>)"
    by (simp add: wrapper_def enter body wrapper_exit_def t wrapper_finally_def active_id_def Let_def d_def
        split: option.splits)
  have f: "d_name d = name \<and> d_step_type d = stype \<and>
          d_success d = False \<and> d_error d = Some msg \<and> d_output d = [] \<and>
          d_reasoning d = Some rsn \<and> Inr (d_input d) = capture_input args kwargs"
    by (simp add: d_def st_def to_dict_def XRayStep_end_def XRayStep_init_def inp)
  show ?thesis using w f by blast
qed

theorem wrapper_records_failure_witness:
  "wrapper_enter s_started ''Step A'' ''x'' [] [] env_A = (Inr (), s_open) \<and>
   raises_boom [] [] s_open = (Inl boom, s_open) \<and>
   is_Exception boom \<and>
   str_exn boom = Inr ''boom'' \<and>
   current_step s_open = map_option (\<lambda>st. st\<lparr>step_reasoning := []\<rparr>) (current_step s_open) \<and>
   fst (wrapper s_started ''Step A'' ''x'' raises_boom [] [] env_A) = Inl boom \<and>
   map_option (\<lambda>tr. map (\<lambda>d. (d_success d, d_error d, d_output d)) (steps tr))
     (traces (snd (wrapper s_started ''Step A'' ''x'' raises_boom [] [] env_A)) ''trace_1700000000_abcdef01'')
     = Some [(False, Some ''boom'', [])]"
proof -
  have b: "raises_boom [] [] s_open = (Inl boom, s_open)" by (simp add: raises_boom_def)
  have x: "is_Exception boom" by (simp add: boom_def)
  have m: "str_exn boom = Inr ''boom''" by (simp add: boom_def)
  have sl: "current_step s_open = map_option (\<lambda>st. st\<lparr>step_reasoning := []\<rparr>) (current_step s_open)"
    by (simp add: s_open_eq XRayStep_init_def)
  have a: "active_id s_open = Some ''trace_1700000000_abcdef01''"
    by (simp add: s_open_eq s_started_eq active_id_def)
  obtain d where w: "wrapper s_started ''Step A'' ''x'' raises_boom [] [] env_A =
            (Inl boom,
             (case active_id s_open of
                None \<Rightarrow> s_open
              | Some tid \<Rightarrow>
                  (case traces s_open tid of
                     None \<Rightarrow> s_open
                   | Some tr \<Rightarrow> s_open\<lparr>traces := (traces s_open)(tid \<mapsto> tr\<lparr>steps := steps tr @ [d]\<rparr>)\<rparr>))
             \<lparr>current_step := None\<rparr>)"
    and d: "d_success d = False" "d_error d = Some ''boom''" "d_output d = []"
    using wrapper_records_failure[where func = raises_boom, OF enter_s_started b x m sl] by blast
  show ?thesis
    using enter_s_started b x m sl d by (simp add: w a) (simp add: s_open_eq s_started_eq)
qed

section \<open>The dashboard's store\<close>

lemma read_traces_append: "read_traces (xs @ ys) = read_traces xs @ read_traces ys"
  by (induction xs) (auto split: file_content.splits json.splits)

lemma startswith_append: "startswith (p @ s) p"
  by (simp add: startswith_def)

lemma endswith_append: "endswith (s @ p) p"
  by (simp add: endswith_def)

lemma trace_file_name: "startswith (''trace_'' @ i @ ''.json'') ''trace_'' \<and> endswith (''trace_'' @ i @ ''.json'') ''.json''"
  using startswith_append[of "''trace_''" "i @ ''.json''"] endswith_append[of "''trace_'' @ i" "''.json''"]
  by simp

lemma is_JStr_present: "is_JStr (dict_get d key JNull) \<Longrightarrow> map_of d key \<noteq> None"
  by (auto simp: dict_get_def split: option.splits)

lemma summary_of_well_formed:
  assumes "well_formed_trace d"
  shows "summary_of file d = trace_summary d"
proof -
  have "map_of d ''id'' \<noteq> None" "map_of d ''name'' \<noteq> None" "map_of d ''start_time'' \<noteq> None"
       "map_of d ''total_steps'' \<noteq> None" "map_of d ''total_duration_ms'' \<noteq> None"
    using assms by (auto simp: well_formed_trace_def dest: is_JStr_present)
  then obtain a b c e f where "map_of d ''id'' = Some a" "map_of d ''name'' = Some b"
      "map_of d ''start_time'' = Some c" "map_of d ''total_steps'' = Some e"
      "map_of d ''total_duration_ms'' = Some f"
    by auto
  then show ?thesis
    by (simp add: summary_of_def trace_summary_def dict_get_def)
qed

lemma read_traces_stored:
  "list_all well_formed_trace recs \<Longrightarrow> read_traces (map stored_file recs) = map trace_summary recs"
proof (induction recs)
  case Nil
  then show ?case by simp
next
  case (Cons d recs)
  then have wf: "well_formed_trace d" and rest: "read_traces (map stored_file recs) = map trace_summary recs"
    by simp_all
  have "read_traces (stored_file d # map stored_file recs) = summary_of (fst (stored_file d)) d # read_traces (map stored_file recs)"
    using trace_file_name[of "str_of (dict_get d ''id'' JNull)"] by (simp add: stored_file_def)
  then show ?case by (simp add: rest summary_of_well_formed[OF wf])
qed

lemma read_traces_corrupt: "read_traces [(file, Malformed e)] = []"
  by simp

lemma start_time_key_summary: "start_time_key (trace_summary d) = dict_get d ''start_time'' JNull"
  by (simp add: start_time_key_def trace_summary_def dict_get_def)

lemma sort_by_start_time_strings:
  assumes "list_all (\<lambda>x. is_JStr (start_time_key x)) xs"
  shows "\<exists>ys. sort_by_start_time sort_other xs = Inr ys \<and> mset ys = mset xs"
  using assms by (simp add: sort_by_start_time_def)

text \<open>
  Claim C8. Let the working directory hold the files of \<open>N\<close> well-formed trace
  records (distinct ids give them distinct names) and, anywhere among them, one file
  that does not parse. Then the listing answers 200 with exactly \<open>N\<close> summaries, and
  they are, in some order, the summaries of the \<open>N\<close> records: each carries the id,
  name, start time, total steps and total duration of its trace. The corrupt file is
  skipped.
\<close>

theorem list_skips_corrupt_record:
  assumes "list_all well_formed_trace recs"
  shows "\<exists>xs. send_trace_list sort_other
                 (map stored_file (take k recs) @ [(bad, Malformed e)] @ map stored_file (drop k recs))
               = Inr (Json_response 200 (JArr xs)) \<and>
              length xs = length recs \<and>
              mset xs = mset (map trace_summary recs)"
proof -
  have wf1: "list_all well_formed_trace (take k recs)" and wf2: "list_all well_formed_trace (drop k recs)"
    using assms by (auto simp: list_all_iff dest: in_set_takeD in_set_dropD)
  have "read_traces (map stored_file (take k recs) @ [(bad, Malformed e)] @ map stored_file (drop k recs))
        = map trace_summary (take k recs) @ map trace_summary (drop k recs)"
    by (simp only: read_traces_append read_traces_stored[OF wf1] read_traces_stored[OF wf2]
        read_traces_corrupt append_Nil)
  also have "\<dots> = map trace_summary recs"
    by (metis append_take_drop_id map_append)
  finally have r: "read_traces (map stored_file (take k recs) @ [(bad, Malformed e)] @ map stored_file (drop k recs))
        = map trace_summary recs" .
  have "list_all (\<lambda>x. is_JStr (start_time_key x)) (map trace_summary recs)"
    using assms by (auto simp: list_all_iff start_time_key_summary well_formed_trace_def)
  then obtain ys where ys: "sort_by_start_time sort_other (map trace_summary recs) = Inr ys"
    and m: "mset ys = mset (map trace_summary recs)"
    using sort_by_start_time_strings by blast
  have l: "length ys = length recs" using m by (metis length_map size_mset)
  have "send_trace_list sort_other
          (map stored_file (take k recs) @ [(bad, Malformed e)] @ map stored_file (drop k recs))
        = Inr (Json_response 200 (JArr ys))"
    by (simp only: send_trace_list_def r ys sum.case)
  then show ?thesis using l m by (intro exI[of _ ys] conjI)
qed

theorem list_skips_corrupt_record_witness:
  "list_all well_formed_trace [record_a, record_b] \<and>
   (\<exists>xs. send_trace_list sort_raises
            [(''trace_a1.json'', Json_text (JObj record_a)),
             (''trace_bad.json'', Malformed (Exn True ''JSONDecodeError'' ''Expecting value'')),
             (''trace_b2.json'', Json_text (JObj record_b))]
          = Inr (Json_response 200 (JArr xs)) \<and>
         length xs = 2 \<and>
         mset xs = mset [JObj [(''id'', JStr ''a1''), (''name'', JStr ''first''),
                               (''start_time'', JStr ''2024-01-01T10:00:00''),
                               (''total_steps'', JInt 0), (''total_duration_ms'', JInt 0)],
                         JObj [(''id'', JStr ''b2''), (''name'', JStr ''second''),
                               (''start_time'', JStr ''2024-01-02T09:30:00''),
                               (''total_steps'', JInt 3), (''total_duration_ms'', JFloat 12.5)]])"
proof -
  have wf: "list_all well_formed_trace [record_a, record_b]"
    by (simp add: well_formed_trace_def record_a_def record_b_def dict_get_def)
  have f: "map stored_file (take 1 [record_a, record_b]) @
             [(''trace_bad.json'', Malformed (Exn True ''JSONDecodeError'' ''Expecting value''))] @
             map stored_file (drop 1 [record_a, record_b]) =
           [(''trace_a1.json'', Json_text (JObj record_a)),
             (''trace_bad.json'', Malformed (Exn True ''JSONDecodeError'' ''Expecting value'')),
             (''trace_b2.json'', Json_text (JObj record_b))]"
    by (simp add: stored_file_def record_a_def record_b_def dict_get_def)
  have s: "map trace_summary [record_a, record_b] =
           [JObj [(''id'', JStr ''a1''), (''name'', JStr ''first''),
                               (''start_time'', JStr ''2024-01-01T10:00:00''),
                               (''total_steps'', JInt 0), (''total_duration_ms'', JInt 0)],
                         JObj [(''id'', JStr ''b2''), (''name'', JStr ''second''),
                               (''start_time'', JStr ''2024-01-02T09:30:00''),
                               (''total_steps'', JInt 3), (''total_duration_ms'', JFloat 12.5)]]"
    by (simp add: trace_summary_def record_a_def record_b_def dict_get_def)
  obtain xs where
    H: "send_trace_list sort_raises
          (map stored_file (take 1 [record_a, record_b]) @
             [(''trace_bad.json'', Malformed (Exn True ''JSONDecodeError'' ''Expecting value''))] @
             map stored_file (drop 1 [record_a, record_b]))
        = Inr (Json_response 200 (JArr xs)) \<and>
       length xs = length [record_a, record_b] \<and>
       mset xs = mset (map trace_summary [record_a, record_b])"
    using list_skips_corrupt_record[OF wf, of sort_raises 1 "''trace_bad.json''" "Exn True ''JSONDecodeError'' ''Expecting value''"]
    ..
  note a = H[THEN conjunct1] and b = H[THEN conjunct2, THEN conjunct1] and c = H[THEN conjunct2, THEN conjunct2]
  have b': "length xs = 2" using b by simp
  show ?thesis
  proof (intro conjI exI[of _ xs])
    show "list_all well_formed_trace [record_a, record_b]" by (rule wf)
    show "send_trace_list sort_raises
            [(''trace_a1.json'', Json_text (JObj record_a)),
             (''trace_bad.json'', Malformed (Exn True ''JSONDecodeError'' ''Expecting value'')),
             (''trace_b2.json'', Json_text (JObj record_b))]
          = Inr (Json_response 200 (JArr xs))" by (rule a[unfolded f])
    show "length xs = 2" by (rule b')
    show "mset xs = mset [JObj [(''id'', JStr ''a1''), (''name'', JStr ''first''),
                               (''start_time'', JStr ''2024-01-01T10:00:00''),
                               (''total_steps'', JInt 0), (''total_duration_ms'', JInt 0)],
                         JObj [(''id'', JStr ''b2''), (''name'', JStr ''second''),
                               (''start_time'', JStr ''2024-01-02T09:30:00''),
                               (''total_steps'', JInt 3), (''total_duration_ms'', JFloat 12.5)]]"
      by (rule c[unfolded s])
  qed
qed

lemma last_segment_trace_path:
  assumes "CHR ''/'' \<notin> set tid"
  shows "last_segment (''/api/trace/'' @ tid) = tid"
proof -
  have "takeWhile (\<lambda>c. c \<noteq> CHR ''/'') (rev tid @ rev ''/api/trace/'') =
        rev tid @ takeWhile (\<lambda>c. c \<noteq> CHR ''/'') (rev ''/api/trace/'')"
    using assms by (intro takeWhile_append2) auto
  then show ?thesis by (simp add: last_segment_def)
qed

lemma printable_not_whitespace: "printable_ascii c \<Longrightarrow> \<not> py_whitespace c"
  by (auto simp: py_whitespace_def printable_ascii_def)

lemma url_safe_chars:
  assumes "url_safe tid" and "c \<in> set tid"
  shows "c \<noteq> CHR ''/''" "c \<noteq> CHR ''?''" "c \<noteq> CHR ''#''" "c \<noteq> CHR 0x3B" "\<not> py_whitespace c"
  using assms by (auto simp: url_safe_def list_all_iff dest: printable_not_whitespace)

lemma urlparse_trace_path:
  assumes "url_safe tid"
  shows "urlparse_path urlparse_other (''/api/trace/'' @ tid) = Inr (''/api/trace/'' @ tid)"
proof -
  have slash: "CHR ''/'' \<notin> set tid" using url_safe_chars(1)[OF assms] by blast
  have a: "startswith (''/api/trace/'' @ tid) ''/'' \<and> \<not> startswith (''/api/trace/'' @ tid) ''//''"
    by (simp add: startswith_def)
  have "list_all (\<lambda>c. \<not> py_whitespace c) ''/api/trace/''"
    by (simp add: py_whitespace_def)
  moreover have "list_all (\<lambda>c. \<not> py_whitespace c) tid"
    using url_safe_chars(5)[OF assms] by (simp add: list_all_iff)
  ultimately have b: "list_all (\<lambda>c. \<not> py_whitespace c) (''/api/trace/'' @ tid)"
    by (simp only: list_all_append simp_thms)
  have "\<forall>c\<in>set (''/api/trace/'' @ tid). c \<noteq> CHR ''?'' \<and> c \<noteq> CHR ''#''"
    using url_safe_chars(2,3)[OF assms] by auto
  then have c: "takeWhile (\<lambda>c. c \<noteq> CHR ''?'' \<and> c \<noteq> CHR ''#'') (''/api/trace/'' @ tid) = ''/api/trace/'' @ tid"
    by (simp only: takeWhile_eq_all_conv)
  have semi: "CHR 0x3B \<notin> set tid" using url_safe_chars(4)[OF assms] by blast
  have d: "split_params (''/api/trace/'' @ tid) = ''/api/trace/'' @ tid"
    unfolding split_params_def last_segment_trace_path[OF slash] Let_def
    using semi by (simp only: if_False)
  show ?thesis
    by (simp only: urlparse_path_def a b c d simp_thms if_True)
qed

lemma do_GET_trace_path:
  assumes "url_safe tid"
  shows "do_GET urlparse_other sort_other files (''/api/trace/'' @ tid) = send_single_trace files tid"
proof -
  have slash: "CHR ''/'' \<notin> set tid" using url_safe_chars(1)[OF assms] by blast
  have "do_GET urlparse_other sort_other files (''/api/trace/'' @ tid) =
        send_single_trace files (last_segment (''/api/trace/'' @ tid))"
    unfolding do_GET_def urlparse_trace_path[OF assms] by (simp add: startswith_def)
  then show ?thesis by (simp only: last_segment_trace_path[OF slash])
qed

text \<open>
  Claim C9 as stated, at records with the ids \<^verbatim>\<open>a?b\<close> and \<^verbatim>\<open>a/b\<close>. The first
  is stored with 201, and both \<^verbatim>\<open>GET /api/trace/a?b\<close> and the escaped
  \<^verbatim>\<open>GET /api/trace/a%3Fb\<close> answer 404: the path ends before the \<^verbatim>\<open>?\<close>, and
  escapes are not decoded. The second, where its write succeeds, is stored with 201
  and \<^verbatim>\<open>GET /api/trace/a/b\<close> answers 404, the id taken being \<^verbatim>\<open>b\<close>; where the
  write fails the submit answers 500 and nothing is stored.
\<close>

theorem save_then_get_counterexample:
  "fst (do_POST repr_any [] ''/api/traces'' (Json_text query_record) True)
     = Json_response 201 (JObj [(''ok'', JBool True), (''id'', JStr ''a?b'')]) \<and>
   do_GET urlparse_raises sort_raises (snd (do_POST repr_any [] ''/api/traces'' (Json_text query_record) True))
     ''/api/trace/a?b'' = Inr (Error_response 404) \<and>
   do_GET urlparse_raises sort_raises (snd (do_POST repr_any [] ''/api/traces'' (Json_text query_record) True))
     ''/api/trace/a%3Fb'' = Inr (Error_response 404) \<and>
   fst (do_POST repr_any [] ''/api/traces'' (Json_text slash_record) True)
     = Json_response 201 (JObj [(''ok'', JBool True), (''id'', JStr ''a/b'')]) \<and>
   do_GET urlparse_raises sort_raises (snd (do_POST repr_any [] ''/api/traces'' (Json_text slash_record) True))
     ''/api/trace/a/b'' = Inr (Error_response 404) \<and>
   fst (do_POST repr_any [] ''/api/traces'' (Json_text slash_record) False) = Error_response 500 \<and>
   do_GET urlparse_raises sort_raises (snd (do_POST repr_any [] ''/api/traces'' (Json_text slash_record) False))
     ''/api/trace/a/b'' = Inr (Error_response 404)"
  by (simp add: do_POST_def save_new_trace_def subscript_def query_record_def slash_record_def demo_record_def
      py_format_def do_GET_def urlparse_path_def split_params_def last_segment_def startswith_def
      py_whitespace_def send_single_trace_def)

text \<open>
  Claim C9, amended. Submitting a record that contains an id, where the request
  parses and the write succeeds, answers 201 with that id and stores the record in
  \<^verbatim>\<open>trace_<id>.json\<close>; fetching that id from the store afterwards
  (\<^verbatim>\<open>_send_single_trace\<close>) answers 200 with a record equal to the one submitted,
  and so does the request \<^verbatim>\<open>GET /api/trace/<id>\<close> for an id of at most 65000
  printable ASCII characters other than \<^verbatim>\<open>/\<close>, \<^verbatim>\<open>?\<close>, \<^verbatim>\<open>#\<close> and \<^verbatim>\<open>;\<close>. In
  particular for \<^verbatim>\<open>{"id": "t1", "name": "demo", "steps": []}\<close> and
  \<^verbatim>\<open>/api/trace/t1\<close>.
\<close>

theorem save_then_get_roundtrip:
  assumes "subscript trace ''id'' = Some i" and "write_ok"
  shows "do_POST repr files ''/api/traces'' (Json_text trace) write_ok =
           (Json_response 201 (JObj [(''ok'', JBool True), (''id'', i)]),
            dict_set (''trace_'' @ py_format repr i @ ''.json'') (Json_text trace) files) \<and>
         send_single_trace (snd (do_POST repr files ''/api/traces'' (Json_text trace) write_ok)) (py_format repr i)
           = Inr (Json_response 200 trace) \<and>
         (url_safe (py_format repr i) \<longrightarrow>
            do_GET urlparse_other sort_other (snd (do_POST repr files ''/api/traces'' (Json_text trace) write_ok))
              (''/api/trace/'' @ py_format repr i)
            = Inr (Json_response 200 trace))"
proof -
  have p: "do_POST repr files ''/api/traces'' (Json_text trace) write_ok =
           (Json_response 201 (JObj [(''ok'', JBool True), (''id'', i)]),
            dict_set (''trace_'' @ py_format repr i @ ''.json'') (Json_text trace) files)"
    using assms by (simp add: do_POST_def save_new_trace_def)
  have g: "send_single_trace (dict_set (''trace_'' @ py_format repr i @ ''.json'') (Json_text trace) files) (py_format repr i)
           = Inr (Json_response 200 trace)"
    by (simp add: send_single_trace_def map_of_dict_set)
  have h: "do_GET urlparse_other sort_other (dict_set (''trace_'' @ py_format repr i @ ''.json'') (Json_text trace) files)
              (''/api/trace/'' @ py_format repr i)
            = Inr (Json_response 200 trace)" if "url_safe (py_format repr i)"
    by (simp only: do_GET_trace_path[OF that] g)
  show ?thesis
    by (simp only: p snd_conv g) (use h in blast)
qed

theorem save_then_get_roundtrip_witness:
  "subscript demo_record ''id'' = Some (JStr ''t1'') \<and>
   url_safe ''t1'' \<and>
   fst (do_POST repr_any [] ''/api/traces'' (Json_text demo_record) True)
     = Json_response 201 (JObj [(''ok'', JBool True), (''id'', JStr ''t1'')]) \<and>
   do_GET urlparse_raises sort_raises (snd (do_POST repr_any [] ''/api/traces'' (Json_text demo_record) True)) ''/api/trace/t1''
     = Inr (Json_response 200 (JObj [(''id'', JStr ''t1''), (''name'', JStr ''demo''), (''steps'', JArr [])]))"
proof -
  have i: "subscript demo_record ''id'' = Some (JStr ''t1'')"
    by (simp add: subscript_def demo_record_def)
  have f: "py_format repr_any (JStr ''t1'') = ''t1''" by (simp add: py_format_def)
  have n: "url_safe ''t1''" by (simp add: url_safe_def printable_ascii_def)
  note r = save_then_get_roundtrip[OF i TrueI, of repr_any "[]" urlparse_raises sort_raises, unfolded f]
  have a: "fst (do_POST repr_any [] ''/api/traces'' (Json_text demo_record) True)
     = Json_response 201 (JObj [(''ok'', JBool True), (''id'', JStr ''t1'')])"
    by (simp only: r[THEN conjunct1] fst_conv)
  have b: "do_GET urlparse_raises sort_raises (snd (do_POST repr_any [] ''/api/traces'' (Json_text demo_record) True)) (''/api/trace/'' @ ''t1'')
     = Inr (Json_response 200 demo_record)"
    using r[THEN conjunct2, THEN conjunct2] n by (rule mp)
  have c: "''/api/trace/'' @ ''t1'' = ''/api/trace/t1''" by simp
  show ?thesis
    using i n a b[unfolded c] by (simp only: demo_record_def simp_thms)
qed

end
